theory Spec2Isabelle
  imports Complex_Main "HOL-Library.Multiset"
begin

section \<open>Values of the vendor JSON\<close>

text \<open>
  The normalisation layer of \<^verbatim>\<open>lib/aoryx-client.ts\<close> works on values of type
  \<^verbatim>\<open>unknown\<close>. A value is modelled by the datatype \<open>json\<close>: one constructor per
  answer of \<^verbatim>\<open>typeof\<close> / \<^verbatim>\<open>Array.isArray\<close>, with \<open>JUndefined\<close> for the value of an
  absent property. A record is the list of its own properties in enumeration order.

  Strings are HOL strings: the code units U+0000 to U+00FF. A number is
  \<open>Finite q\<close> with \<open>q\<close> the rational value of the double, or one of the three
  non-finite values. A literal that is read from a string is rounded to the nearest
  double, and a number is printed with the shortest digits that read back as it.
\<close>

datatype number = Finite rat | NaN | PosInf | NegInf

datatype json =
    JUndefined
  | JNull
  | JBool bool
  | JNumber number
  | JString string
  | JArray "json list"
  | JObject "(string \<times> json) list"

text \<open>\<^verbatim>\<open>value === null || value === undefined\<close>, the test behind \<^verbatim>\<open>??\<close> and \<^verbatim>\<open>?.\<close>.\<close>

fun nullish :: "json \<Rightarrow> bool" where
  "nullish JUndefined = True"
| "nullish JNull = True"
| "nullish _ = False"

text \<open>\<^verbatim>\<open>a ?? b\<close>\<close>

definition coalesce :: "json \<Rightarrow> json \<Rightarrow> json" where
  "coalesce a b = (if nullish a then b else a)"

text \<open>JavaScript truthiness: \<^verbatim>\<open>!value\<close> is \<open>\<not> truthy value\<close>.\<close>

fun truthy :: "json \<Rightarrow> bool" where
  "truthy JUndefined = False"
| "truthy JNull = False"
| "truthy (JBool b) = b"
| "truthy (JNumber (Finite q)) = (q \<noteq> 0)"
| "truthy (JNumber NaN) = False"
| "truthy (JNumber _) = True"
| "truthy (JString s) = (s \<noteq> [])"
| "truthy _ = True"

text \<open>
  \<^verbatim>\<open>value.key\<close> for a base that is not null or undefined (on those the access throws
  a TypeError, which every caller below writes out). None of the keys read by the
  source is a property of a string, a number, a boolean or an array, so only a
  record can answer.
\<close>

fun getField :: "json \<Rightarrow> string \<Rightarrow> json" where
  "getField (JObject kvs) k = (case map_of kvs k of None \<Rightarrow> JUndefined | Some v \<Rightarrow> v)"
| "getField _ k = JUndefined"

text \<open>\<^verbatim>\<open>value?.key\<close>\<close>

definition optField :: "json \<Rightarrow> string \<Rightarrow> json" where
  "optField v k = (if nullish v then JUndefined else getField v k)"

text \<open>\<^verbatim>\<open>typeof value === "object" && value !== null && !Array.isArray(value)\<close>\<close>

fun isRecord :: "json \<Rightarrow> bool" where
  "isRecord (JObject kvs) = True"
| "isRecord _ = False"

section \<open>Strings\<close>

text \<open>White space and line terminators of ECMAScript, in the range of the model.\<close>

definition isWhiteSpace :: "char \<Rightarrow> bool" where
  "isWhiteSpace c \<longleftrightarrow>
     c \<in> {CHR 0x09, CHR 0x0A, CHR 0x0B, CHR 0x0C, CHR 0x0D, CHR '' '', CHR 0xA0}"

definition trimStart :: "string \<Rightarrow> string" where
  "trimStart s = dropWhile isWhiteSpace s"

definition trim :: "string \<Rightarrow> string" where
  "trim s = rev (trimStart (rev (trimStart s)))"

text \<open>
  \<^verbatim>\<open>toLowerCase\<close>: the upper-case letters of the range are A to Z and U+00C0 to
  U+00DE without the multiplication sign; the lower-case letter is 32 further, which
  sets bit 5.
\<close>

definition toLowerChar :: "char \<Rightarrow> char" where
  "toLowerChar c =
     (let n = (of_char c :: nat) in
      if (65 \<le> n \<and> n \<le> 90) \<or> (192 \<le> n \<and> n \<le> 222 \<and> n \<noteq> 215)
      then Char (digit0 c) (digit1 c) (digit2 c) (digit3 c) (digit4 c) True (digit6 c) (digit7 c)
      else c)"

definition toLowerCase :: "string \<Rightarrow> string" where
  "toLowerCase s = map toLowerChar s"

text \<open>\<^verbatim>\<open>s.includes(p)\<close>\<close>

fun includesStr :: "string \<Rightarrow> string \<Rightarrow> bool" where
  "includesStr [] p = (p = [])"
| "includesStr (c # cs) p = (take (length p) (c # cs) = p \<or> includesStr cs p)"

text \<open>\<^verbatim>\<open>parts.join(sep)\<close>\<close>

fun join :: "string \<Rightarrow> string list \<Rightarrow> string" where
  "join sep [] = []"
| "join sep [x] = x"
| "join sep (x # y # ys) = x @ sep @ join sep (y # ys)"

section \<open>Numbers and their strings\<close>

definition isDigit :: "char \<Rightarrow> bool" where
  "isDigit c \<longleftrightarrow> c \<in> set ''0123456789''"

definition digitValue :: "char \<Rightarrow> nat" where
  "digitValue c = of_char c - 48"

definition decimalValue :: "string \<Rightarrow> nat" where
  "decimalValue ds = foldl (\<lambda>a c. 10 * a + digitValue c) 0 ds"

text \<open>An optional sign: whether it is a minus, and the rest of the input.\<close>

fun stripSign :: "string \<Rightarrow> bool \<times> string" where
  "stripSign [] = (False, [])"
| "stripSign (c # cs) =
     (if c = CHR ''-'' then (True, cs) else if c = CHR ''+'' then (False, cs) else (False, c # cs))"

text \<open>
  An optional ExponentPart (\<^verbatim>\<open>e\<close> or \<^verbatim>\<open>E\<close>, an optional sign, at least one digit): its
  value and the rest of the input. An incomplete exponent is not consumed.
\<close>

fun exponentPart :: "string \<Rightarrow> int \<times> string" where
  "exponentPart [] = (0, [])"
| "exponentPart (c # cs) =
     (if c = CHR ''e'' \<or> c = CHR ''E'' then
        (let (neg, r) = stripSign cs; ds = takeWhile isDigit r in
         if ds = [] then (0, c # cs)
         else (if neg then - int (decimalValue ds) else int (decimalValue ds), dropWhile isDigit r))
      else (0, c # cs))"

definition scale10 :: "rat \<Rightarrow> int \<Rightarrow> rat" where
  "scale10 q e = (if 0 \<le> e then q * 10 ^ nat e else q / 10 ^ nat (- e))"

text \<open>
  The longest prefix that is a StrUnsignedDecimalLiteral other than \<^verbatim>\<open>Infinity\<close>
  (digits, an optional fraction, an optional exponent; or a fraction that starts with
  the point): its value and the rest of the input, \<open>None\<close> when there is no such prefix.
\<close>

definition unsignedDecimal :: "string \<Rightarrow> (rat \<times> string) option" where
  "unsignedDecimal s =
     (let ip = takeWhile isDigit s;
          r1 = dropWhile isDigit s;
          dot = (case r1 of [] \<Rightarrow> False | c # _ \<Rightarrow> c = CHR ''.'');
          fp = (if dot then takeWhile isDigit (tl r1) else []);
          r2 = (if dot then dropWhile isDigit (tl r1) else r1)
      in if ip = [] \<and> fp = [] then None
         else (let (e, r3) = exponentPart r2 in
               Some (scale10 (of_nat (decimalValue (ip @ fp)) / 10 ^ length fp) e, r3)))"

text \<open>
  The Number value of a non-negative real: the nearest IEEE 754 binary64 value, a tie
  going to the even significand. \<open>binaryExponent q\<close> is the \<open>e\<close> with
  \<open>2^e \<le> q < 2^(e+1)\<close>; a double has 53 significant bits, and below \<open>2^-1022\<close> the
  spacing stays \<open>2^-1074\<close>. A result of \<open>2^1024\<close> or more is \<open>Infinity\<close>.
\<close>

fun bitLength :: "nat \<Rightarrow> nat" where
  "bitLength n = (if n = 0 then 0 else Suc (bitLength (n div 2)))"

declare bitLength.simps [simp del]

definition pow2 :: "int \<Rightarrow> rat" where
  "pow2 e = (if 0 \<le> e then 2 ^ nat e else 1 / 2 ^ nat (- e))"

definition binaryExponent :: "rat \<Rightarrow> int" where
  "binaryExponent q =
     (if 1 \<le> q then int (bitLength (nat \<lfloor>q\<rfloor>)) - 1
      else (let j = int (bitLength (nat \<lfloor>1 / q\<rfloor>)) - 1 in
            if q = pow2 (- j) then - j else - j - 1))"

definition roundHalfEven :: "rat \<Rightarrow> int" where
  "roundHalfEven t =
     (let f = \<lfloor>t\<rfloor>; d = t - of_int f in
      if d < 1 / 2 then f else if 1 / 2 < d then f + 1 else if even f then f else f + 1)"

definition roundDouble :: "rat \<Rightarrow> rat" where
  "roundDouble q =
     (if q \<le> 0 then 0
      else (let e = max (binaryExponent q) (- 1022); ulp = pow2 (e - 52) in
            of_int (roundHalfEven (q / ulp)) * ulp))"

definition infinityBound :: rat where
  "infinityBound = 2 ^ 1024"

definition toDouble :: "bool \<Rightarrow> rat \<Rightarrow> number" where
  "toDouble neg q =
     (let x = roundDouble q in
      if infinityBound \<le> x then (if neg then NegInf else PosInf)
      else Finite (if neg then - x else x))"

definition startsWith :: "string \<Rightarrow> string \<Rightarrow> bool" where
  "startsWith s p \<longleftrightarrow> take (length p) s = p"

text \<open>\<^verbatim>\<open>parseFloat(s)\<close>: leading white space is skipped, the longest numeric prefix read.\<close>

definition parseFloat :: "string \<Rightarrow> number" where
  "parseFloat s =
     (let (neg, r) = stripSign (trimStart s) in
      if startsWith r ''Infinity'' then (if neg then NegInf else PosInf)
      else (case unsignedDecimal r of
              None \<Rightarrow> NaN
            | Some (q, rest) \<Rightarrow> toDouble neg q))"

text \<open>
  \<^verbatim>\<open>Number(s)\<close> for a string: the whole trimmed string has to be a numeric literal.
  The empty string is 0; a literal with prefix \<^verbatim>\<open>0x\<close>, \<^verbatim>\<open>0o\<close> or \<^verbatim>\<open>0b\<close> takes no sign.
\<close>

definition radixDigit :: "char \<Rightarrow> nat option" where
  "radixDigit c =
     (let n = (of_char c :: nat) in
      if 48 \<le> n \<and> n \<le> 57 then Some (n - 48)
      else if 97 \<le> n \<and> n \<le> 102 then Some (n - 87)
      else if 65 \<le> n \<and> n \<le> 70 then Some (n - 55)
      else None)"

definition radixLiteral :: "nat \<Rightarrow> string \<Rightarrow> number" where
  "radixLiteral b ds =
     (if ds \<noteq> [] \<and> list_all (\<lambda>c. case radixDigit c of None \<Rightarrow> False | Some d \<Rightarrow> d < b) ds
      then toDouble False (of_nat (foldl (\<lambda>a c. b * a + the (radixDigit c)) 0 ds))
      else NaN)"

definition stringToNumber :: "string \<Rightarrow> number" where
  "stringToNumber s =
     (let t = trim s in
      if t = [] then Finite 0
      else if startsWith t ''0x'' \<or> startsWith t ''0X'' then radixLiteral 16 (drop 2 t)
      else if startsWith t ''0o'' \<or> startsWith t ''0O'' then radixLiteral 8 (drop 2 t)
      else if startsWith t ''0b'' \<or> startsWith t ''0B'' then radixLiteral 2 (drop 2 t)
      else (let (neg, r) = stripSign t in
            if r = ''Infinity'' then (if neg then NegInf else PosInf)
            else (case unsignedDecimal r of
                    Some (q, []) \<Rightarrow> toDouble neg q
                  | _ \<Rightarrow> NaN)))"

text \<open>The decimal digits of a natural number.\<close>

fun natDigits :: "nat \<Rightarrow> string" where
  "natDigits n =
     (if n < 10 then [''0123456789'' ! n]
      else natDigits (n div 10) @ [''0123456789'' ! (n mod 10)])"

declare natDigits.simps [simp del]

definition isZeroChar :: "char \<Rightarrow> bool" where
  "isZeroChar c \<longleftrightarrow> c = CHR ''0''"

text \<open>
  \<^verbatim>\<open>String(x)\<close> for a finite number (Number::toString, radix 10) writes the fewest
  digits that read back as \<open>x\<close>. \<open>decimalExponent x\<close> is the \<open>n\<close> with
  \<open>10^(n-1) \<le> x < 10^n\<close>. With \<open>k\<close> digits, the integers on both sides of
  \<open>x / 10^(n-k)\<close> are tried: one is kept when the decimal it writes rounds to \<open>x\<close>; of
  two, the closer one, the even one on a tie. The search starts with one digit; 17
  digits always read back as the double they come from.
\<close>

definition decimalExponent :: "rat \<Rightarrow> int" where
  "decimalExponent x =
     (if 1 \<le> x then int (length (natDigits (nat \<lfloor>x\<rfloor>)))
      else (let j = int (length (natDigits (nat \<lfloor>1 / x\<rfloor>))) - 1 in
            if x = scale10 1 (- j) then 1 - j else - j))"

definition shortestCandidate :: "rat \<Rightarrow> int \<Rightarrow> nat \<Rightarrow> nat option" where
  "shortestCandidate x n k =
     (let p = n - int k; t = scale10 x (- p); lo = nat \<lfloor>t\<rfloor>; hi = lo + 1;
          okLo = (roundDouble (scale10 (of_nat lo) p) = x);
          okHi = (roundDouble (scale10 (of_nat hi) p) = x)
      in if okLo \<and> okHi
         then (if t - of_nat lo < of_nat hi - t then Some lo
               else if of_nat hi - t < t - of_nat lo then Some hi
               else if even lo then Some lo else Some hi)
         else if okLo then Some lo
         else if okHi then Some hi
         else None)"

text \<open>
  The digits as a natural number and the power of ten it is scaled by. The fuel is
  the number of digit counts still to try.
\<close>

fun shortestDigits :: "nat \<Rightarrow> rat \<Rightarrow> int \<Rightarrow> nat \<Rightarrow> nat \<times> int" where
  "shortestDigits 0 x n k = (nat \<lfloor>scale10 x (int k - n)\<rfloor> + 1, n - int k)"
| "shortestDigits (Suc fuel) x n k =
     (case shortestCandidate x n k of
        Some c \<Rightarrow> (c, n - int k)
      | None \<Rightarrow> shortestDigits fuel x n (k + 1))"

text \<open>
  With \<open>s\<close> the significant digits, \<open>k\<close> their count and \<open>n\<close> the position of the
  point, the plain notation is used for \<open>-6 < n \<le> 21\<close> and the exponent notation
  otherwise.
\<close>

definition positiveToString :: "rat \<Rightarrow> string" where
  "positiveToString x =
     (let (c, p) = shortestDigits 17 x (decimalExponent x) 1;
          ds = natDigits c;
          s = rev (dropWhile isZeroChar (rev ds));
          k = int (length s);
          n = int (length ds) + p
      in if k \<le> n \<and> n \<le> 21 then s @ replicate (nat (n - k)) CHR ''0''
         else if 0 < n \<and> n \<le> 21 then take (nat n) s @ ''.'' @ drop (nat n) s
         else if - 6 < n \<and> n \<le> 0 then ''0.'' @ replicate (nat (- n)) CHR ''0'' @ s
         else (take 1 s @ (if k = 1 then [] else ''.'' @ drop 1 s) @ ''e''
               @ (if 0 \<le> n - 1 then ''+'' else ''-'') @ natDigits (nat \<bar>n - 1\<bar>)))"

text \<open>The argument is read as the double nearest to it.\<close>

definition numberToString :: "rat \<Rightarrow> string" where
  "numberToString q =
     (let x = roundDouble \<bar>q\<bar> in
      if x = 0 then ''0''
      else if q < 0 then ''-'' @ positiveToString x
      else positiveToString x)"

section \<open>Coercions of \<^verbatim>\<open>lib/aoryx-client.ts\<close>\<close>

fun toStringValue :: "json \<Rightarrow> string option" where
  "toStringValue (JString s) = (if length (trim s) > 0 then Some (trim s) else None)"
| "toStringValue (JNumber (Finite q)) = Some (numberToString q)"
| "toStringValue _ = None"

text \<open>The result of \<open>toNumber\<close> is a finite number or null: a rational, or \<open>None\<close>.\<close>

fun toNumber :: "json \<Rightarrow> rat option" where
  "toNumber (JNumber (Finite q)) = Some q"
| "toNumber (JString s) = (case parseFloat s of Finite q \<Rightarrow> Some q | _ \<Rightarrow> None)"
| "toNumber _ = None"

text \<open>\<^verbatim>\<open>Math.round(x)\<close> is \<open>\<lfloor>x + 1/2\<rfloor>\<close>.\<close>

definition toInteger :: "json \<Rightarrow> int option" where
  "toInteger v = (case toNumber v of Some num \<Rightarrow> Some \<lfloor>num + 1 / 2\<rfloor> | None \<Rightarrow> None)"

fun toBoolean :: "json \<Rightarrow> bool option" where
  "toBoolean (JBool b) = Some b"
| "toBoolean (JNumber x) =
     (if x = Finite 1 then Some True else if x = Finite 0 then Some False else None)"
| "toBoolean (JString s) =
     (let normalized = toLowerCase (trim s) in
      if normalized \<in> set [''true'', ''yes'', ''y'', ''1''] then Some True
      else if normalized \<in> set [''false'', ''no'', ''n'', ''0''] then Some False
      else None)"
| "toBoolean _ = None"

record money =
  amount :: "rat option"
  currency :: "string option"

fun extractMoney :: "json \<Rightarrow> money" where
  "extractMoney (JNumber x) = \<lparr>amount = toNumber (JNumber x), currency = None\<rparr>"
| "extractMoney (JString s) = \<lparr>amount = toNumber (JString s), currency = None\<rparr>"
| "extractMoney (JObject kvs) =
     (let v = JObject kvs in
      \<lparr>amount = toNumber
         (coalesce (coalesce (coalesce (coalesce (coalesce
            (getField v ''Amount'') (getField v ''TotalAmount'')) (getField v ''Value''))
            (getField v ''Price'')) (getField v ''Net'')) (getField v ''NetAmount'')),
       currency = toStringValue
         (coalesce (coalesce (getField v ''Currency'') (getField v ''CurrencyCode''))
            (getField v ''Curr''))\<rparr>)"
| "extractMoney _ = \<lparr>amount = None, currency = None\<rparr>"

fun extractCancellationPolicy :: "json \<Rightarrow> string option" where
  "extractCancellationPolicy (JString s) = (if trim s = [] then None else Some (trim s))"
| "extractCancellationPolicy (JArray xs) =
     (let parts = concat (map (\<lambda>item. case extractCancellationPolicy item of
                                         None \<Rightarrow> [] | Some p \<Rightarrow> [p]) xs)
      in if length parts > 0 then Some (join '' '' parts) else None)"
| "extractCancellationPolicy (JObject kvs) =
     (let v = JObject kvs in
      toStringValue
        (coalesce (coalesce (coalesce (getField v ''Text'') (getField v ''Policy''))
           (getField v ''Description'')) (getField v ''Remark'')))"
| "extractCancellationPolicy _ = None"

section \<open>Errors\<close>

text \<open>
  What a function of the client can throw: the TypeError of a property access on
  null or undefined (or of a call of a method the value does not have), the
  \<^verbatim>\<open>AoryxClientError\<close> of the transport with its message, and the
  \<^verbatim>\<open>AoryxServiceError\<close> with its message, code, status code and errors.
\<close>

datatype error =
    TypeError
  | AoryxClientError string
  | AoryxServiceError json string json json

fun errorCode :: "error \<Rightarrow> string option" where
  "errorCode (AoryxServiceError message code statusCode errors) = Some code"
| "errorCode _ = None"

text \<open>\<^verbatim>\<open>xs.map(f)\<close> for an \<open>f\<close> that can throw: the first throw ends the loop.\<close>

fun mapThrowing :: "('a \<Rightarrow> error + 'b) \<Rightarrow> 'a list \<Rightarrow> error + 'b list" where
  "mapThrowing f [] = Inr []"
| "mapThrowing f (x # xs) =
     (case f x of
        Inl e \<Rightarrow> Inl e
      | Inr y \<Rightarrow> (case mapThrowing f xs of Inl e \<Rightarrow> Inl e | Inr ys \<Rightarrow> Inr (y # ys)))"

section \<open>Hotels of a search response\<close>

record AoryxHotelSummary =
  hs_code :: "string option"
  hs_name :: "string option"
  hs_minPrice :: "rat option"
  hs_currency :: "string option"
  hs_rating :: "rat option"
  hs_address :: "string option"
  hs_city :: "string option"
  hs_imageUrl :: "string option"
  hs_latitude :: "rat option"
  hs_longitude :: "rat option"

text \<open>\<^verbatim>\<open>a ?? b\<close> on results that are a string or null.\<close>

definition orElse :: "'a option \<Rightarrow> 'a option \<Rightarrow> 'a option" where
  "orElse a b = (case a of Some x \<Rightarrow> Some x | None \<Rightarrow> b)"

text \<open>
  \<^verbatim>\<open>hotel.HotelInfo\<close> is read without a guard: it throws when \<open>hotel\<close> is null or
  undefined. Every later access is on \<open>hotel\<close> again or goes through \<^verbatim>\<open>info?.\<close>.
\<close>

definition normalizeSearchHotel :: "json \<Rightarrow> string option \<Rightarrow> error + AoryxHotelSummary" where
  "normalizeSearchHotel hotel cur =
     (if nullish hotel then Inl TypeError
      else (let info = getField hotel ''HotelInfo'' in
        Inr \<lparr>hs_code = toStringValue (getField hotel ''Code''),
             hs_name = orElse (toStringValue (optField info ''Name''))
                              (toStringValue (getField hotel ''Name'')),
             hs_minPrice = toNumber (getField hotel ''MinPrice''),
             hs_currency = cur,
             hs_rating = toNumber (optField info ''StarRating''),
             hs_address = toStringValue (optField info ''Add1''),
             hs_city = toStringValue (optField info ''City''),
             hs_imageUrl = toStringValue (optField info ''Image''),
             hs_latitude = toNumber (optField info ''Lat''),
             hs_longitude = toNumber (optField info ''Lon'')\<rparr>))"

section \<open>Room options\<close>

definition normalizeArray :: "json \<Rightarrow> json list" where
  "normalizeArray v =
     (if \<not> truthy v then [] else (case v of JArray xs \<Rightarrow> xs | _ \<Rightarrow> [v]))"

text \<open>\<^verbatim>\<open>Object.keys(record)\<close>; the source calls it on records only.\<close>

fun objectKeys :: "json \<Rightarrow> string list" where
  "objectKeys (JObject kvs) = map fst kvs"
| "objectKeys _ = []"

definition roomKey :: "string \<Rightarrow> bool" where
  "roomKey key =
     (let normalized = toLowerCase key in
      includesStr normalized ''room'' \<or> includesStr normalized ''rate'' \<or>
      includesStr normalized ''board'' \<or> includesStr normalized ''meal'' \<or>
      includesStr normalized ''refundable'')"

definition hasRoomSignature :: "json \<Rightarrow> bool" where
  "hasRoomSignature record = list_ex roomKey (objectKeys record)"

text \<open>
  The inner function \<^verbatim>\<open>visit\<close> of \<open>findRoomCandidates\<close> pushes onto \<^verbatim>\<open>candidates\<close>;
  the model returns the pushed lists in the order of the pushes.
\<close>

fun visit :: "json \<Rightarrow> json list list" where
  "visit (JArray node) =
     (let records = filter isRecord node in
      (if length records > 0 \<and> list_ex hasRoomSignature records then [records] else [])
      @ concat (map visit node))"
| "visit (JObject kvs) = concat (map (\<lambda>kv. visit (snd kv)) kvs)"
| "visit _ = []"

text \<open>
  \<^verbatim>\<open>Array.prototype.sort(cmp)\<close> is stable; for a consistent comparator its result
  is the one of a stable insertion sort.
\<close>

fun insertBy :: "('a \<Rightarrow> 'a \<Rightarrow> 'b::{linorder,zero}) \<Rightarrow> 'a \<Rightarrow> 'a list \<Rightarrow> 'a list" where
  "insertBy cmp x [] = [x]"
| "insertBy cmp x (y # ys) = (if cmp x y \<le> 0 then x # y # ys else y # insertBy cmp x ys)"

definition arraySort :: "('a \<Rightarrow> 'a \<Rightarrow> 'b::{linorder,zero}) \<Rightarrow> 'a list \<Rightarrow> 'a list" where
  "arraySort cmp xs = foldr (insertBy cmp) xs []"

definition byLengthDesc :: "'a list \<Rightarrow> 'a list \<Rightarrow> int" where
  "byLengthDesc a b = int (length b) - int (length a)"

definition findRoomCandidates :: "json \<Rightarrow> json list" where
  "findRoomCandidates v =
     (let candidates = visit v in
      if length candidates = 0 then []
      else (case arraySort byLengthDesc candidates of [] \<Rightarrow> [] | c # _ \<Rightarrow> c))"

record AoryxRoomOption =
  ro_id :: string
  ro_name :: "string option"
  ro_boardType :: "string option"
  ro_refundable :: "bool option"
  ro_currency :: "string option"
  ro_totalPrice :: "rat option"
  ro_availableRooms :: "int option"
  ro_cancellationPolicy :: "string option"

text \<open>
  The loop over \<^verbatim>\<open>priceCandidates\<close>: the money of the first candidate with an amount
  (\<^verbatim>\<open>currency\<close> is still null at the \<^verbatim>\<open>break\<close>, so \<^verbatim>\<open>money.currency ?? currency\<close> is
  \<^verbatim>\<open>money.currency\<close>).
\<close>

fun firstPrice :: "json list \<Rightarrow> money" where
  "firstPrice [] = \<lparr>amount = None, currency = None\<rparr>"
| "firstPrice (candidate # rest) =
     (let money = extractMoney candidate in
      if amount money \<noteq> None then money else firstPrice rest)"

text \<open>The four fields behind the id, joined by \<^verbatim>\<open>??\<close>.\<close>

definition roomIdSource :: "json \<Rightarrow> json" where
  "roomIdSource room =
     coalesce (coalesce (coalesce (getField room ''RoomCode'') (getField room ''RateKey''))
       (getField room ''RoomIndex'')) (getField room ''Id'')"

text \<open>
  The callback of \<^verbatim>\<open>resolvedRoomItems.map\<close>, for a room that is a record and its
  0-based index. \<^verbatim>\<open>index + 1\<close> is a positive integer, whose string is its digits.
\<close>

definition normalizeRoom :: "json \<Rightarrow> nat \<Rightarrow> AoryxRoomOption" where
  "normalizeRoom room index =
     (let refundableValue =
            toBoolean (coalesce (getField room ''Refundable'') (getField room ''IsRefundable''));
          nonRefundableValue = toBoolean (getField room ''NonRefundable'');
          money = firstPrice [getField room ''TotalPrice'', getField room ''TotalAmount'',
                    getField room ''RoomRate'', getField room ''NetRate'', getField room ''Price'',
                    getField room ''NetPrice'', getField room ''Amount'']
      in
      \<lparr>ro_id = (case toStringValue (roomIdSource room) of
                  Some s \<Rightarrow> s
                | None \<Rightarrow> ''room-'' @ natDigits (index + 1)),
       ro_name = toStringValue
         (coalesce (coalesce (coalesce (getField room ''RoomName'') (getField room ''RoomType''))
            (getField room ''Name'')) (getField room ''Room'')),
       ro_boardType = toStringValue
         (coalesce (coalesce (coalesce (coalesce (getField room ''BoardType'')
            (getField room ''MealType'')) (getField room ''MealPlan'')) (getField room ''Meal''))
            (getField room ''Board'')),
       ro_refundable =
         (if refundableValue \<noteq> None then refundableValue
          else if nonRefundableValue \<noteq> None then map_option Not nonRefundableValue
          else None),
       ro_currency =
         (if currency money = None \<or> currency money = Some []
          then toStringValue
                 (coalesce (coalesce (getField room ''Currency'') (getField room ''CurrencyCode''))
                    (getField room ''Curr''))
          else currency money),
       ro_totalPrice = amount money,
       ro_availableRooms = toInteger
         (coalesce (coalesce (getField room ''AvailableRooms'') (getField room ''RoomAvailable''))
            (getField room ''Availability'')),
       ro_cancellationPolicy = extractCancellationPolicy
         (coalesce (coalesce (getField room ''CancellationPolicy'') (getField room ''CancelPolicy''))
            (getField room ''CancellationText''))\<rparr>)"

definition roomSources :: "json \<Rightarrow> json list" where
  "roomSources response =
     [optField (getField response ''RoomDetails'') ''RoomDetail'',
      optField (getField response ''HotelRooms'') ''HotelRoom'',
      (if isRecord (getField response ''Rooms'')
       then getField (getField response ''Rooms'') ''Room''
       else getField response ''Rooms'')]"

text \<open>The \<^verbatim>\<open>reduce\<close> over the three sources: the records of the first that has any.\<close>

definition roomItems :: "json \<Rightarrow> json list" where
  "roomItems response =
     foldl (\<lambda>acc source.
              if length acc > 0 then acc
              else (let candidates = filter isRecord (normalizeArray source) in
                    if length candidates > 0 then candidates else acc))
       [] (roomSources response)"

definition resolvedRoomItems :: "json \<Rightarrow> json list" where
  "resolvedRoomItems response =
     (if length (roomItems response) > 0 then roomItems response
      else findRoomCandidates response)"

text \<open>
  \<^verbatim>\<open>response.RoomDetails\<close> is read without a guard: it throws when the response is
  null or undefined. The rooms that are mapped are records.
\<close>

definition normalizeRoomOptions :: "json \<Rightarrow> error + AoryxRoomOption list" where
  "normalizeRoomOptions response =
     (if nullish response then Inl TypeError
      else Inr (map (\<lambda>(index, room). normalizeRoom room index)
                  (enumerate 0 (resolvedRoomItems response))))"

section \<open>Service functions\<close>

text \<open>
  \<^verbatim>\<open>coreRequest\<close> performs the HTTP exchange. The model takes its outcome: the message
  of the \<^verbatim>\<open>AoryxClientError\<close> it throws (missing configuration, time-out, a status
  that is not 2xx, a body that is not JSON), or the response it returns.
\<close>

datatype outcome = Threw string | Returned json

record AoryxRoomSearch =
  roomIdentifier :: int
  adults :: int
  childrenAges :: "int list"

record AoryxSearchParams =
  p_destinationCode :: "string option"
  p_hotelCode :: "string option"
  p_countryCode :: string
  p_nationality :: string
  p_checkInDate :: string
  p_checkOutDate :: string
  p_currency :: "string option"
  p_regionId :: "string option"
  p_customerCode :: "string option"
  p_rooms :: "AoryxRoomSearch list"

text \<open>\<^verbatim>\<open>!s\<close> for an optional string: undefined or empty.\<close>

definition absent :: "string option \<Rightarrow> bool" where
  "absent s \<longleftrightarrow> s = None \<or> s = Some []"

definition invalidParams :: "string \<Rightarrow> error" where
  "invalidParams message = AoryxServiceError (JString message) ''INVALID_PARAMS'' JUndefined JUndefined"

text \<open>\<open>None\<close> when nothing is thrown.\<close>

definition validateSearchParams :: "AoryxSearchParams \<Rightarrow> error option" where
  "validateSearchParams params =
     (if absent (p_destinationCode params) \<and> absent (p_hotelCode params)
      then Some (invalidParams ''Either destinationCode or hotelCode is required'')
      else if p_checkInDate params = [] \<or> p_checkOutDate params = []
      then Some (invalidParams ''Check-in and check-out dates are required'')
      else if length (p_rooms params) = 0
      then Some (invalidParams ''At least one room is required'')
      else None)"

definition extractSessionId :: "json \<Rightarrow> error + string" where
  "extractSessionId generalInfo =
     (case toStringValue (optField generalInfo ''SessionId'') of
        None \<Rightarrow> Inl (AoryxServiceError (JString ''No session ID in search response'')
                      ''MISSING_SESSION_ID'' JUndefined JUndefined)
      | Some sessionId \<Rightarrow>
          if sessionId = []
          then Inl (AoryxServiceError (JString ''No session ID in search response'')
                      ''MISSING_SESSION_ID'' JUndefined JUndefined)
          else Inr sessionId)"

record destination =
  d_code :: "string option"
  d_name :: "string option"

record AoryxSearchResult =
  sr_sessionId :: string
  sr_currency :: "string option"
  sr_propertyCount :: "int option"
  sr_responseTime :: "string option"
  sr_destination :: "destination option"
  sr_hotels :: "AoryxHotelSummary list"

text \<open>\<^verbatim>\<open>Array.isArray(hotelsRaw) ? hotelsRaw : hotelsRaw ? [hotelsRaw] : []\<close>\<close>

definition hotelsArray :: "json \<Rightarrow> json list" where
  "hotelsArray hotelsRaw =
     (case hotelsRaw of JArray xs \<Rightarrow> xs | _ \<Rightarrow> if truthy hotelsRaw then [hotelsRaw] else [])"

text \<open>\<^verbatim>\<open>response.Hotels?.Hotel ?? []\<close>, as the array that is mapped.\<close>

definition hotelEntries :: "json \<Rightarrow> json list" where
  "hotelEntries response =
     hotelsArray (coalesce (optField (getField response ''Hotels'') ''Hotel'') (JArray []))"

text \<open>
  \<open>search\<close>, after the request has been built and sent. \<^verbatim>\<open>response.IsSuccess\<close> is
  read without a guard.
\<close>

definition search :: "AoryxSearchParams \<Rightarrow> outcome \<Rightarrow> error + AoryxSearchResult" where
  "search params out =
     (case validateSearchParams params of
        Some e \<Rightarrow> Inl e
      | None \<Rightarrow>
     (case out of
        Threw message \<Rightarrow> Inl (AoryxClientError message)
      | Returned response \<Rightarrow>
     if nullish response then Inl TypeError
     else if \<not> truthy (getField response ''IsSuccess'') \<and> truthy (getField response ''ExceptionMessage'')
     then Inl (AoryxServiceError (getField response ''ExceptionMessage'') ''SEARCH_ERROR''
                 (coalesce (getField response ''StatusCode'') JUndefined) (getField response ''Errors''))
     else
     (case extractSessionId (coalesce (getField response ''GeneralInfo'') JUndefined) of
        Inl e \<Rightarrow> Inl e
      | Inr sessionId \<Rightarrow>
     (let cur = toStringValue
                  (optField (optField (getField response ''Monetary'') ''Currency'') ''Code'')
      in
     (case mapThrowing (\<lambda>h. normalizeSearchHotel h cur) (hotelEntries response) of
        Inl e \<Rightarrow> Inl e
      | Inr hotels \<Rightarrow>
        Inr \<lparr>sr_sessionId = sessionId,
             sr_currency = cur,
             sr_propertyCount = toInteger (optField (getField response ''Audit'') ''PropertyCount''),
             sr_responseTime = toStringValue (optField (getField response ''Audit'') ''ResponseTime''),
             sr_destination =
               (let dest = optField (getField response ''Audit'') ''Destination'' in
                if truthy dest
                then Some \<lparr>d_code = toStringValue (getField dest ''Code''),
                           d_name = toStringValue (getField dest ''Text'')\<rparr>
                else None),
             sr_hotels = hotels\<rparr>)))))"

text \<open>
  \<open>roomDetails\<close> runs \<open>search\<close> (first outcome) for the session id and then its own
  request (second outcome).
\<close>

definition roomDetails :: "AoryxSearchParams \<Rightarrow> outcome \<Rightarrow> outcome \<Rightarrow> error + AoryxRoomOption list" where
  "roomDetails params searchOut out =
     (case validateSearchParams params of
        Some e \<Rightarrow> Inl e
      | None \<Rightarrow>
     if absent (p_hotelCode params)
     then Inl (invalidParams ''Hotel code is required for room details'')
     else
     (case search params searchOut of
        Inl e \<Rightarrow> Inl e
      | Inr found \<Rightarrow>
     (case out of
        Threw message \<Rightarrow> Inl (AoryxClientError message)
      | Returned response \<Rightarrow>
     if nullish response then Inl TypeError
     else if getField response ''IsSuccess'' = JBool False
     then Inl (AoryxServiceError
                 (coalesce (getField response ''ExceptionMessage'') (JString ''RoomDetails request failed''))
                 ''ROOM_DETAILS_ERROR''
                 (coalesce (getField response ''StatusCode'') JUndefined) (getField response ''Errors''))
     else normalizeRoomOptions response)))"

record HotelInfo =
  hi_destinationId :: "string option"
  hi_name :: "string option"
  hi_systemId :: "string option"
  hi_rating :: "rat option"
  hi_city :: "string option"
  hi_address :: "string option"
  hi_imageUrl :: "string option"
  hi_latitude :: "rat option"
  hi_longitude :: "rat option"

text \<open>The callback of \<^verbatim>\<open>hotelsInformation.map\<close>: \<^verbatim>\<open>item.GeoCode\<close> has no guard.\<close>

definition hotelsInfoItem :: "json \<Rightarrow> error + HotelInfo" where
  "hotelsInfoItem item =
     (if nullish item then Inl TypeError
      else (let geoCode = getField item ''GeoCode'' in
        Inr \<lparr>hi_destinationId = toStringValue (getField item ''DestinationId''),
             hi_name = toStringValue (getField item ''Name''),
             hi_systemId = toStringValue (getField item ''SystemId''),
             hi_rating = toNumber (getField item ''Rating''),
             hi_city = toStringValue (getField item ''City''),
             hi_address = toStringValue (getField item ''Address1''),
             hi_imageUrl = toStringValue (getField item ''ImageUrl''),
             hi_latitude = toNumber (optField geoCode ''Lat''),
             hi_longitude = toNumber (optField geoCode ''Lon'')\<rparr>))"

text \<open>
  \<^verbatim>\<open>hotelsInformation.map\<close> is a TypeError when \<^verbatim>\<open>HotelsInformation\<close> is neither
  absent, null nor an array.
\<close>

definition hotelsInfoByDestinationId :: "outcome \<Rightarrow> error + HotelInfo list" where
  "hotelsInfoByDestinationId out =
     (case out of
        Threw message \<Rightarrow> Inl (AoryxClientError message)
      | Returned response \<Rightarrow>
     if nullish response then Inl TypeError
     else
     (let isSuccess = getField response ''IsSuccess'';
          exceptionMessage = getField response ''ExceptionMessage'';
          hotelsInformation = coalesce (getField response ''HotelsInformation'') (JArray [])
      in
     if \<not> truthy isSuccess
     then Inl (AoryxServiceError
                 (coalesce exceptionMessage (JString ''HotelsInfoByDestinationId request failed''))
                 ''HOTELS_INFO_ERROR''
                 (coalesce (getField response ''StatusCode'') JUndefined) (getField response ''Errors''))
     else (case hotelsInformation of
             JArray items \<Rightarrow> mapThrowing hotelsInfoItem items
           | _ \<Rightarrow> Inl TypeError)))"

record hotelAddress =
  a_line1 :: "string option"
  a_line2 :: "string option"
  a_countryCode :: "string option"
  a_countryName :: "string option"
  a_cityName :: "string option"
  a_stateCode :: "string option"
  a_zipCode :: "string option"

record hotelGeoCode =
  g_lat :: "rat option"
  g_lon :: "rat option"

record hotelContact =
  c_phone :: "string option"
  c_fax :: "string option"
  c_website :: "string option"

record AoryxHotelInfoResult =
  hr_systemId :: "string option"
  hr_name :: "string option"
  hr_rating :: "rat option"
  hr_tripAdvisorRating :: "rat option"
  hr_tripAdvisorUrl :: "string option"
  hr_currencyCode :: "string option"
  hr_imageUrl :: "string option"
  hr_imageUrls :: "string list"
  hr_address :: "hotelAddress option"
  hr_geoCode :: "hotelGeoCode option"
  hr_contact :: "hotelContact option"

text \<open>The result is \<open>None\<close> for the \<^verbatim>\<open>null\<close> that \<open>hotelInfo\<close> returns without hotel information.\<close>

definition hotelInfo :: "outcome \<Rightarrow> error + AoryxHotelInfoResult option" where
  "hotelInfo out =
     (case out of
        Threw message \<Rightarrow> Inl (AoryxClientError message)
      | Returned response \<Rightarrow>
     if nullish response then Inl TypeError
     else
     (let isSuccess = getField response ''IsSuccess'';
          exceptionMessage = getField response ''ExceptionMessage''
      in
     if \<not> truthy isSuccess
     then Inl (AoryxServiceError
                 (coalesce exceptionMessage (JString ''HotelInfo request failed''))
                 ''HOTEL_INFO_ERROR''
                 (coalesce (getField response ''StatusCode'') JUndefined) (getField response ''Errors''))
     else
     (let info = coalesce (getField response ''HotelInformation'') JNull in
      if \<not> truthy info then Inr None
      else Inr (Some
        \<lparr>hr_systemId = toStringValue (getField info ''SystemId''),
         hr_name = toStringValue (getField info ''Name''),
         hr_rating = toNumber (getField info ''Rating''),
         hr_tripAdvisorRating = toNumber (getField info ''TripAdvisorRating''),
         hr_tripAdvisorUrl = toStringValue (getField info ''TripAdvisorUrl''),
         hr_currencyCode = toStringValue (getField info ''CurrencyCode''),
         hr_imageUrl = toStringValue (getField info ''ImageUrl''),
         hr_imageUrls =
           (case getField info ''ImageUrls'' of
              JArray urls \<Rightarrow> concat (map (\<lambda>u. case toStringValue u of
                                                   None \<Rightarrow> [] | Some x \<Rightarrow> if x = [] then [] else [x]) urls)
            | _ \<Rightarrow> []),
         hr_address =
           (let address = getField info ''Address'' in
            if truthy address
            then Some \<lparr>a_line1 = toStringValue (getField address ''Line1''),
                       a_line2 = toStringValue (getField address ''Line2''),
                       a_countryCode = toStringValue (getField address ''CountryCode''),
                       a_countryName = toStringValue (getField address ''CountryName''),
                       a_cityName = toStringValue (getField address ''CityName''),
                       a_stateCode = toStringValue (getField address ''StateCode''),
                       a_zipCode = toStringValue (getField address ''ZipCode'')\<rparr>
            else None),
         hr_geoCode =
           (let geoCode = getField info ''GeoCode'' in
            if truthy geoCode
            then Some \<lparr>g_lat = toNumber (getField geoCode ''Lat''),
                       g_lon = toNumber (getField geoCode ''Lon'')\<rparr>
            else None),
         hr_contact =
           (let contact = getField info ''Contact'' in
            if truthy contact
            then Some \<lparr>c_phone = toStringValue (getField contact ''PhoneNo''),
                       c_fax = toStringValue (getField contact ''FaxNo''),
                       c_website = toStringValue (getField contact ''Website'')\<rparr>
            else None)\<rparr>))))"

section \<open>Sorting of the results page\<close>

text \<open>
  \<^verbatim>\<open>results-client.tsx\<close> receives the hotels as JSON, so a price or a rating is a
  finite number or null: \<^verbatim>\<open>typeof a === "number"\<close> is \<open>a \<noteq> None\<close>.
\<close>

datatype direction = Asc | Desc

definition compareNullable :: "rat option \<Rightarrow> rat option \<Rightarrow> direction \<Rightarrow> rat" where
  "compareNullable a b dir =
     (case a of
        None \<Rightarrow> (case b of None \<Rightarrow> 0 | Some y \<Rightarrow> 1)
      | Some x \<Rightarrow> (case b of None \<Rightarrow> - 1 | Some y \<Rightarrow> if dir = Asc then x - y else y - x))"

definition comparePrice :: "direction \<Rightarrow> AoryxHotelSummary \<Rightarrow> AoryxHotelSummary \<Rightarrow> rat" where
  "comparePrice dir a b =
     (let priceDelta = compareNullable (hs_minPrice a) (hs_minPrice b) dir in
      if priceDelta \<noteq> 0 then priceDelta
      else compareNullable (hs_rating a) (hs_rating b) Desc)"

definition compareRating :: "direction \<Rightarrow> AoryxHotelSummary \<Rightarrow> AoryxHotelSummary \<Rightarrow> rat" where
  "compareRating dir a b =
     (let ratingDelta = compareNullable (hs_rating a) (hs_rating b) dir in
      if ratingDelta \<noteq> 0 then ratingDelta
      else compareNullable (hs_minPrice a) (hs_minPrice b) Asc)"

datatype sortBy = PriceAsc | PriceDesc | RatingDesc | RatingAsc

text \<open>The \<^verbatim>\<open>switch (sortBy)\<close>; its default branch is the rating, descending.\<close>

fun sortHotels :: "sortBy \<Rightarrow> AoryxHotelSummary list \<Rightarrow> AoryxHotelSummary list" where
  "sortHotels PriceAsc filteredHotels = arraySort (comparePrice Asc) filteredHotels"
| "sortHotels PriceDesc filteredHotels = arraySort (comparePrice Desc) filteredHotels"
| "sortHotels RatingAsc filteredHotels = arraySort (compareRating Asc) filteredHotels"
| "sortHotels RatingDesc filteredHotels = arraySort (compareRating Desc) filteredHotels"

record bounds =
  b_min :: rat
  b_max :: rat

text \<open>
  The callback of \<^verbatim>\<open>hotels.filter\<close>: a hotel is dropped by the price filter (a
  price outside the range, or no price while \<^verbatim>\<open>hasActivePriceFilter\<close>) or by the
  rating filter (no rating, or \<^verbatim>\<open>Math.floor(rating)\<close> not selected).
\<close>

definition droppedByPrice :: "bounds option \<Rightarrow> bounds option \<Rightarrow> AoryxHotelSummary \<Rightarrow> bool" where
  "droppedByPrice priceBounds priceRange hotel =
     (case priceBounds of
        None \<Rightarrow> False
      | Some pb \<Rightarrow>
          (case priceRange of
             None \<Rightarrow> False
           | Some pr \<Rightarrow>
               (case hs_minPrice hotel of
                  Some price \<Rightarrow> price < b_min pr \<or> price > b_max pr
                | None \<Rightarrow> b_min pr > b_min pb \<or> b_max pr < b_max pb)))"

definition droppedByRating :: "int list \<Rightarrow> AoryxHotelSummary \<Rightarrow> bool" where
  "droppedByRating selectedRatings hotel =
     (if selectedRatings = [] then False
      else (case hs_rating hotel of
              None \<Rightarrow> True
            | Some r \<Rightarrow> \<lfloor>r\<rfloor> \<notin> set selectedRatings))"

definition keepHotel :: "bounds option \<Rightarrow> bounds option \<Rightarrow> int list \<Rightarrow> AoryxHotelSummary \<Rightarrow> bool" where
  "keepHotel priceBounds priceRange selectedRatings hotel =
     (if droppedByPrice priceBounds priceRange hotel then False
      else if droppedByRating selectedRatings hotel then False
      else True)"

text \<open>The memo \<^verbatim>\<open>sortedHotels\<close>: the hotels that pass the filters, sorted.\<close>

definition sortedHotels ::
  "AoryxHotelSummary list \<Rightarrow> bounds option \<Rightarrow> bounds option \<Rightarrow> int list \<Rightarrow> sortBy
     \<Rightarrow> AoryxHotelSummary list" where
  "sortedHotels hotels priceBounds priceRange selectedRatings sortBy =
     (if length hotels = 0 then []
      else sortHotels sortBy (filter (keepHotel priceBounds priceRange selectedRatings) hotels))"

section \<open>The favorites route\<close>

text \<open>
  The collection \<^verbatim>\<open>user_favorites\<close> is the list of its documents, in storage order.
  The stored \<^verbatim>\<open>userId\<close> (an ObjectId when the string is one) is never read by a query
  of the route and is left out; times are natural numbers.
\<close>

record favorite =
  f_id :: nat
  f_userIdString :: string
  f_hotelCode :: string
  f_name :: "string option"
  f_city :: "string option"
  f_address :: "string option"
  f_imageUrl :: "string option"
  f_rating :: "rat option"
  f_source :: string
  f_savedAt :: nat
  f_updatedAt :: nat
  f_createdAt :: nat

definition parseString :: "json \<Rightarrow> string option" where
  "parseString v =
     (case v of
        JString s \<Rightarrow> (let trimmed = trim s in if length trimmed > 0 then Some trimmed else None)
      | _ \<Rightarrow> None)"

definition parseHotelCode :: "json \<Rightarrow> string option" where
  "parseHotelCode v = parseString v"

definition parseNumber :: "json \<Rightarrow> rat option" where
  "parseNumber v =
     (case v of
        JNumber x \<Rightarrow> (case x of Finite q \<Rightarrow> Some q | _ \<Rightarrow> None)
      | JString s \<Rightarrow>
          (if length (trim s) > 0
           then (case stringToNumber s of Finite q \<Rightarrow> Some q | _ \<Rightarrow> None)
           else None)
      | _ \<Rightarrow> None)"

definition clampLimit :: "rat \<Rightarrow> rat \<Rightarrow> rat \<Rightarrow> rat" where
  "clampLimit v lo hi = min (max v lo) hi"

text \<open>
  The limit of the list query of \<open>GET\<close>, from \<^verbatim>\<open>searchParams.get("limit")\<close>, which is a
  string or null. \<^verbatim>\<open>Number(null)\<close> is 0.
\<close>

definition requestedLimit :: "string option \<Rightarrow> rat" where
  "requestedLimit limitParam =
     (let rawLimit = (case limitParam of None \<Rightarrow> Finite 0 | Some s \<Rightarrow> stringToNumber s) in
      clampLimit (case rawLimit of Finite q \<Rightarrow> q | _ \<Rightarrow> 24) 1 48)"

text \<open>\<^verbatim>\<open>findOne({ userIdString, hotelCode })\<close>\<close>

definition findOne :: "string \<Rightarrow> string \<Rightarrow> favorite list \<Rightarrow> favorite option" where
  "findOne u h coll = List.find (\<lambda>d. f_userIdString d = u \<and> f_hotelCode d = h) coll"

text \<open>\<^verbatim>\<open>deleteOne(filter)\<close> removes the first document that matches.\<close>

fun deleteOne :: "(favorite \<Rightarrow> bool) \<Rightarrow> favorite list \<Rightarrow> favorite list" where
  "deleteOne P [] = []"
| "deleteOne P (d # ds) = (if P d then ds else d # deleteOne P ds)"

text \<open>An identifier that no document of the collection has.\<close>

definition freshId :: "favorite list \<Rightarrow> nat" where
  "freshId coll = Suc (foldr max (map f_id coll) 0)"

text \<open>
  \<^verbatim>\<open>updateOne(filter, { $set, $setOnInsert }, { upsert: true })\<close>: the first match is
  updated and keeps its identifier and \<^verbatim>\<open>createdAt\<close>; without a match the document is
  inserted. The payload is a document whose \<open>f_id\<close> and \<open>f_createdAt\<close> are those of an
  insertion.
\<close>

fun upsertOne :: "string \<Rightarrow> string \<Rightarrow> favorite \<Rightarrow> favorite list \<Rightarrow> favorite list" where
  "upsertOne u h payload [] = [payload]"
| "upsertOne u h payload (d # ds) =
     (if f_userIdString d = u \<and> f_hotelCode d = h
      then payload\<lparr>f_id := f_id d, f_createdAt := f_createdAt d\<rparr> # ds
      else d # upsertOne u h payload ds)"

datatype reply = Unauthorized | MissingHotelCode | IsFavorite bool

text \<open>
  \<open>POST\<close>: the id of the session's user (if any), the parsed body (null when it is not
  JSON), the time, and the collection; the reply and the collection afterwards.
\<close>

definition POST :: "string option \<Rightarrow> json \<Rightarrow> nat \<Rightarrow> favorite list \<Rightarrow> reply \<times> favorite list" where
  "POST userId body now coll =
     (case userId of
        None \<Rightarrow> (Unauthorized, coll)
      | Some uid \<Rightarrow>
     if uid = [] then (Unauthorized, coll)
     else
     (case parseHotelCode (optField body ''hotelCode'') of
        None \<Rightarrow> (MissingHotelCode, coll)
      | Some hotelCode \<Rightarrow>
     if hotelCode = [] then (MissingHotelCode, coll)
     else
     (let userIdString = trim uid in
     (case findOne userIdString hotelCode coll of
        Some existing \<Rightarrow> (IsFavorite False, deleteOne (\<lambda>d. f_id d = f_id existing) coll)
      | None \<Rightarrow>
        (IsFavorite True,
         upsertOne userIdString hotelCode
           \<lparr>f_id = freshId coll,
            f_userIdString = userIdString,
            f_hotelCode = hotelCode,
            f_name = parseString (optField body ''name''),
            f_city = parseString (optField body ''city''),
            f_address = parseString (optField body ''address''),
            f_imageUrl = parseString (optField body ''imageUrl''),
            f_rating = parseNumber (optField body ''rating''),
            f_source = (case parseString (optField body ''source'') of
                          Some src \<Rightarrow> src | None \<Rightarrow> ''aoryx''),
            f_savedAt = now,
            f_updatedAt = now,
            f_createdAt = now\<rparr>
           coll)))))"

section \<open>Notions used by the statements\<close>

text \<open>The field a sort order looks at.\<close>

fun sortField :: "sortBy \<Rightarrow> AoryxHotelSummary \<Rightarrow> rat option" where
  "sortField PriceAsc h = hs_minPrice h"
| "sortField PriceDesc h = hs_minPrice h"
| "sortField RatingAsc h = hs_rating h"
| "sortField RatingDesc h = hs_rating h"

text \<open>\<open>a\<close> may stand before \<open>b\<close>: not (\<open>a\<close> lacks the field while \<open>b\<close> has it).\<close>

definition missingLast :: "('a \<Rightarrow> 'b option) \<Rightarrow> 'a \<Rightarrow> 'a \<Rightarrow> bool" where
  "missingLast f a b \<longleftrightarrow> \<not> (f a = None \<and> f b \<noteq> None)"

text \<open>
  The collection holds a document of the user \<open>u\<close> for the hotel \<open>h\<close>; the key of a
  document; a collection whose identifiers and whose keys are unique, which is the
  uniqueness of (userId, hotelCode) in the data model.
\<close>

definition present :: "string \<Rightarrow> string \<Rightarrow> favorite list \<Rightarrow> bool" where
  "present u h coll = list_ex (\<lambda>d. f_userIdString d = u \<and> f_hotelCode d = h) coll"

definition favoriteKey :: "favorite \<Rightarrow> string \<times> string" where
  "favoriteKey d = (f_userIdString d, f_hotelCode d)"

definition wellFormed :: "favorite list \<Rightarrow> bool" where
  "wellFormed coll \<longleftrightarrow> distinct (map f_id coll) \<and> distinct (map favoriteKey coll)"

text \<open>\<^verbatim>\<open>GeneralInfo.SessionId\<close> and \<^verbatim>\<open>Hotels.Hotel\<close> of a search response.\<close>

definition sessionIdOf :: "json \<Rightarrow> json" where
  "sessionIdOf response = optField (getField response ''GeneralInfo'') ''SessionId''"

definition hotelOf :: "json \<Rightarrow> json" where
  "hotelOf response = optField (getField response ''Hotels'') ''Hotel''"

text \<open>The result is a throw of an \<^verbatim>\<open>AoryxServiceError\<close> with the given code.\<close>

definition throwsCode :: "string \<Rightarrow> error + 'a \<Rightarrow> bool" where
  "throwsCode code r = (case r of Inl e \<Rightarrow> errorCode e = Some code | Inr x \<Rightarrow> False)"

text \<open>Concrete inputs on which the theorems are run.\<close>

definition sampleParams :: AoryxSearchParams where
  "sampleParams =
     \<lparr>p_destinationCode = None, p_hotelCode = Some ''H42'', p_countryCode = ''AE'',
      p_nationality = ''AM'', p_checkInDate = ''2026-03-01'', p_checkOutDate = ''2026-03-05'',
      p_currency = None, p_regionId = None, p_customerCode = None,
      p_rooms = [\<lparr>roomIdentifier = 1, adults = 2, childrenAges = []\<rparr>]\<rparr>"

definition sampleSearchResponse :: json where
  "sampleSearchResponse =
     JObject [(''IsSuccess'', JBool True),
              (''GeneralInfo'', JObject [(''SessionId'', JString '' S-1 '')]),
              (''Hotels'', JObject [(''Hotel'', JObject [(''Code'', JString ''H42'')])])]"

text \<open>The type of a value, as \<^verbatim>\<open>typeof\<close>, \<^verbatim>\<open>Array.isArray\<close> and \<^verbatim>\<open>=== null\<close> tell it.\<close>

datatype kind = KUndefined | KNull | KBoolean | KNumber | KString | KArray | KRecord

fun typeOf :: "json \<Rightarrow> kind" where
  "typeOf JUndefined = KUndefined"
| "typeOf JNull = KNull"
| "typeOf (JBool b) = KBoolean"
| "typeOf (JNumber x) = KNumber"
| "typeOf (JString s) = KString"
| "typeOf (JArray xs) = KArray"
| "typeOf (JObject kvs) = KRecord"

text \<open>
  Responses on which the theorems are run: one that is flagged and has a message; one
  with neither flag nor message; one with the flag and a session id and no message;
  one whose hotel list holds null.
\<close>

definition sampleFailure :: json where
  "sampleFailure = JObject [(''IsSuccess'', JBool False), (''ExceptionMessage'', JString ''boom'')]"

definition sampleUnflagged :: json where
  "sampleUnflagged = JObject [(''HotelInformation'', JObject [(''Name'', JString ''Grand'')])]"

definition sampleFlagged :: json where
  "sampleFlagged =
     JObject [(''IsSuccess'', JBool False),
              (''GeneralInfo'', JObject [(''SessionId'', JString ''S-1'')])]"

definition sampleNullHotel :: json where
  "sampleNullHotel =
     JObject [(''GeneralInfo'', JObject [(''SessionId'', JString ''S-1'')]),
              (''Hotels'', JObject [(''Hotel'', JArray [JNull])])]"

text \<open>A room-details response whose room list holds null before a record.\<close>

definition sampleNullRoom :: json where
  "sampleNullRoom =
     JObject [(''RoomDetails'',
               JObject [(''RoomDetail'', JArray [JNull, JObject [(''RoomCode'', JString ''R1'')]])])]"

text \<open>The keys under which \<open>extractMoney\<close> looks for the amount, in its order.\<close>

definition moneyKeys :: "string list" where
  "moneyKeys = [''Amount'', ''TotalAmount'', ''Value'', ''Price'', ''Net'', ''NetAmount'']"

text \<open>
  A decimal literal as \<^verbatim>\<open>parseFloat\<close> reads it: an optional sign, digits, an optional
  point with digits, an optional exponent (\<^verbatim>\<open>e\<close> or \<^verbatim>\<open>E\<close>, an optional sign, digits).
  There is a digit before or after the point.
\<close>

record literal =
  l_sign :: string
  l_int :: string
  l_dot :: bool
  l_frac :: string
  l_exp :: "(char \<times> string \<times> string) option"

definition isSign :: "string \<Rightarrow> bool" where
  "isSign sg \<longleftrightarrow> sg = [] \<or> sg = ''+'' \<or> sg = ''-''"

definition exponentText :: "(char \<times> string \<times> string) option \<Rightarrow> string" where
  "exponentText x = (case x of None \<Rightarrow> [] | Some (c, sg, ds) \<Rightarrow> c # sg @ ds)"

definition literalText :: "literal \<Rightarrow> string" where
  "literalText l =
     l_sign l @ l_int l @ (if l_dot l then ''.'' else []) @ l_frac l @ exponentText (l_exp l)"

definition wellFormedLiteral :: "literal \<Rightarrow> bool" where
  "wellFormedLiteral l \<longleftrightarrow>
     isSign (l_sign l) \<and> list_all isDigit (l_int l) \<and> list_all isDigit (l_frac l)
     \<and> (l_int l \<noteq> [] \<or> l_frac l \<noteq> []) \<and> (l_dot l \<or> l_frac l = [])
     \<and> (case l_exp l of
          None \<Rightarrow> True
        | Some (c, sg, ds) \<Rightarrow>
            (c = CHR ''e'' \<or> c = CHR ''E'') \<and> isSign sg \<and> ds \<noteq> [] \<and> list_all isDigit ds)"

text \<open>The number the literal writes, and the double it is read as.\<close>

definition literalExponent :: "literal \<Rightarrow> int" where
  "literalExponent l =
     (case l_exp l of
        None \<Rightarrow> 0
      | Some (c, sg, ds) \<Rightarrow> if sg = ''-'' then - int (decimalValue ds) else int (decimalValue ds))"

definition literalMagnitude :: "literal \<Rightarrow> rat" where
  "literalMagnitude l =
     scale10 (of_nat (decimalValue (l_int l @ l_frac l)) / 10 ^ length (l_frac l))
       (literalExponent l)"

definition literalNumber :: "literal \<Rightarrow> number" where
  "literalNumber l = toDouble (l_sign l = ''-'') (literalMagnitude l)"

definition finiteValue :: "number \<Rightarrow> rat option" where
  "finiteValue x = (case x of Finite q \<Rightarrow> Some q | _ \<Rightarrow> None)"

text \<open>
  The text starts an exponent: \<^verbatim>\<open>e\<close> or \<^verbatim>\<open>E\<close>, an optional sign, a digit. The text
  \<open>r\<close> behind a literal does not belong to it: it starts with no digit, with no point
  when the literal could still take one, and with no exponent when the literal has
  none.
\<close>

definition exponentStart :: "string \<Rightarrow> bool" where
  "exponentStart r =
     (case r of
        [] \<Rightarrow> False
      | c # cs \<Rightarrow> (c = CHR ''e'' \<or> c = CHR ''E'')
                 \<and> (case snd (stripSign cs) of [] \<Rightarrow> False | d # _ \<Rightarrow> isDigit d))"

definition endsLiteral :: "literal \<Rightarrow> string \<Rightarrow> bool" where
  "endsLiteral l r \<longleftrightarrow>
     (case r of
        [] \<Rightarrow> True
      | c # cs \<Rightarrow> \<not> isDigit c
                 \<and> (l_dot l \<or> l_exp l \<noteq> None \<or> c \<noteq> CHR ''.'')
                 \<and> (l_exp l \<noteq> None \<or> \<not> exponentStart r))"

text \<open>
  The text \<open>r\<close> behind the white space and the sign \<open>sg\<close> starts no number: it starts
  with no digit, with no point before a digit and not with \<^verbatim>\<open>Infinity\<close>; and behind
  no sign it starts with no white space and no sign.
\<close>

definition startsNoNumber :: "string \<Rightarrow> string \<Rightarrow> bool" where
  "startsNoNumber sg r \<longleftrightarrow>
     \<not> startsWith r ''Infinity''
     \<and> (case r of
          [] \<Rightarrow> True
        | c # cs \<Rightarrow> \<not> isDigit c
                   \<and> (sg \<noteq> [] \<or> (\<not> isWhiteSpace c \<and> c \<noteq> CHR ''+'' \<and> c \<noteq> CHR ''-''))
                   \<and> (c \<noteq> CHR ''.'' \<or> (case cs of [] \<Rightarrow> True | d # _ \<Rightarrow> \<not> isDigit d)))"

text \<open>Digits are read up to the first character that is none.\<close>

definition noDigitAhead :: "string \<Rightarrow> bool" where
  "noDigitAhead t \<longleftrightarrow> (case t of [] \<Rightarrow> True | c # _ \<Rightarrow> \<not> isDigit c)"

text \<open>
  Literals on which the theorems are run: \<^verbatim>\<open>12.50\<close>, \<^verbatim>\<open>-1e3\<close>, \<^verbatim>\<open>9007199254740993\<close>
  and \<^verbatim>\<open>100\<close>.
\<close>

definition sampleLiteral :: literal where
  "sampleLiteral = \<lparr>l_sign = [], l_int = ''12'', l_dot = True, l_frac = ''50'', l_exp = None\<rparr>"

definition sampleExponentLiteral :: literal where
  "sampleExponentLiteral =
     \<lparr>l_sign = ''-'', l_int = ''1'', l_dot = False, l_frac = [],
      l_exp = Some (CHR ''e'', [], ''3'')\<rparr>"

definition sampleLongLiteral :: literal where
  "sampleLongLiteral =
     \<lparr>l_sign = [], l_int = ''9007199254740993'', l_dot = False, l_frac = [], l_exp = None\<rparr>"

definition sampleIntegerLiteral :: literal where
  "sampleIntegerLiteral =
     \<lparr>l_sign = [], l_int = ''100'', l_dot = False, l_frac = [], l_exp = None\<rparr>"

text \<open>A money record whose first key holds no number and whose second key holds one.\<close>

definition sampleMoney :: json where
  "sampleMoney = JObject [(''Amount'', JString ''N/A''), (''TotalAmount'', JNumber (Finite 100))]"

text \<open>The fields behind the id of a room option, in the order of the source.\<close>

definition roomIdKeys :: "string list" where
  "roomIdKeys = [''RoomCode'', ''RateKey'', ''RoomIndex'', ''Id'']"

text \<open>
  A room-details response with three rooms: an empty \<^verbatim>\<open>RoomCode\<close> before a usable
  \<^verbatim>\<open>RateKey\<close>; a null \<^verbatim>\<open>RoomCode\<close> and the \<^verbatim>\<open>RoomIndex\<close> 7; none of the four fields.
\<close>

definition sampleRooms :: json where
  "sampleRooms =
     JObject [(''RoomDetails'', JObject [(''RoomDetail'',
        JArray [JObject [(''RoomCode'', JString ''''), (''RateKey'', JString ''RK-7'')],
                JObject [(''RoomCode'', JNull), (''RoomIndex'', JNumber (Finite 7))],
                JObject [(''RoomName'', JString ''Deluxe'')]])])]"

text \<open>
  Every value that occurs in a value, itself included, at any depth inside arrays and
  records.
\<close>

fun nodes :: "json \<Rightarrow> json list" where
  "nodes (JArray xs) = JArray xs # concat (map nodes xs)"
| "nodes (JObject kvs) = JObject kvs # concat (map (\<lambda>kv. nodes (snd kv)) kvs)"
| "nodes v = [v]"

text \<open>An array with a record that has a key with a room signature.\<close>

definition roomLike :: "json list \<Rightarrow> bool" where
  "roomLike xs = list_ex hasRoomSignature (filter isRecord xs)"

text \<open>
  A room-details response without any of the known room lists and with a nested array
  of two records and a string.
\<close>

definition sampleNested :: json where
  "sampleNested =
     JObject [(''IsSuccess'', JBool True),
              (''Data'', JObject [(''Offers'',
                 JArray [JObject [(''RoomTypeName'', JString ''Deluxe''), (''Total'', JNumber (Finite 120))],
                         JString ''separator'',
                         JObject [(''Total'', JNumber (Finite 95))]])])]"

section \<open>The sort of the results page\<close>

lemma set_insertBy: "set (insertBy cmp x ys) = insert x (set ys)"
  by (induction ys) auto

lemma mset_insertBy: "mset (insertBy cmp x ys) = add_mset x (mset ys)"
  by (induction ys) auto

lemma mset_arraySort: "mset (arraySort cmp xs) = mset xs"
  by (induction xs) (simp_all add: arraySort_def mset_insertBy)

lemma set_arraySort: "set (arraySort cmp xs) = set xs"
  by (metis mset_arraySort set_mset_mset)

text \<open>
  An insertion keeps the entries without the field behind the others, for every
  comparator that never puts such an entry first.
\<close>

lemma insertBy_missingLast:
  assumes le: "\<And>a b. cmp a b \<le> 0 \<Longrightarrow> missingLast f a b"
    and gt: "\<And>a b. \<not> cmp a b \<le> 0 \<Longrightarrow> missingLast f b a"
    and srt: "sorted_wrt (missingLast f) ys"
  shows "sorted_wrt (missingLast f) (insertBy cmp x ys)"
  using srt
proof (induction ys)
  case Nil
  then show ?case by simp
next
  case (Cons y ys)
  show ?case
  proof (cases "cmp x y \<le> 0")
    case True
    then have xy: "missingLast f x y" by (rule le)
    have "\<forall>z\<in>set ys. missingLast f x z"
    proof
      fix z assume "z \<in> set ys"
      with Cons.prems have "missingLast f y z" by simp
      with xy show "missingLast f x z" by (auto simp: missingLast_def)
    qed
    with True xy Cons.prems show ?thesis by simp
  next
    case False
    then have yx: "missingLast f y x" by (rule gt)
    from Cons have "sorted_wrt (missingLast f) (insertBy cmp x ys)" by simp
    with False yx Cons.prems show ?thesis by (simp add: set_insertBy)
  qed
qed

lemma arraySort_missingLast:
  assumes le: "\<And>a b. cmp a b \<le> 0 \<Longrightarrow> missingLast f a b"
    and gt: "\<And>a b. \<not> cmp a b \<le> 0 \<Longrightarrow> missingLast f b a"
  shows "sorted_wrt (missingLast f) (arraySort cmp xs)"
proof (induction xs)
  case Nil
  then show ?case by (simp add: arraySort_def)
next
  case (Cons x xs)
  have "arraySort cmp (x # xs) = insertBy cmp x (arraySort cmp xs)"
    by (simp add: arraySort_def)
  with Cons insertBy_missingLast [OF le gt] show ?case by simp
qed

lemma compareNullable_le: "compareNullable a b d \<le> 0 \<Longrightarrow> \<not> (a = None \<and> b \<noteq> None)"
  by (auto simp: compareNullable_def split: option.splits)

lemma compareNullable_gt: "\<not> compareNullable a b d \<le> 0 \<Longrightarrow> \<not> (b = None \<and> a \<noteq> None)"
  by (auto simp: compareNullable_def split: option.splits)

lemma compareNullable_zero: "compareNullable a b d = 0 \<Longrightarrow> (a = None) = (b = None)"
  by (auto simp: compareNullable_def split: option.splits if_splits)

lemma comparePrice_le: "comparePrice d a b \<le> 0 \<Longrightarrow> missingLast hs_minPrice a b"
  unfolding comparePrice_def missingLast_def Let_def
  by (metis compareNullable_le compareNullable_zero)

lemma comparePrice_gt: "\<not> comparePrice d a b \<le> 0 \<Longrightarrow> missingLast hs_minPrice b a"
  unfolding comparePrice_def missingLast_def Let_def
  by (metis compareNullable_gt compareNullable_zero)

lemma compareRating_le: "compareRating d a b \<le> 0 \<Longrightarrow> missingLast hs_rating a b"
  unfolding compareRating_def missingLast_def Let_def
  by (metis compareNullable_le compareNullable_zero)

lemma compareRating_gt: "\<not> compareRating d a b \<le> 0 \<Longrightarrow> missingLast hs_rating b a"
  unfolding compareRating_def missingLast_def Let_def
  by (metis compareNullable_gt compareNullable_zero)

text \<open>
  The comparators are consistent: swapping the arguments changes the sign, and the
  order they induce is transitive. Every stable sort gives the same list for them.
\<close>

lemma compareNullable_trans:
  "compareNullable a b d \<le> 0 \<Longrightarrow> compareNullable b c d \<le> 0 \<Longrightarrow> compareNullable a c d \<le> 0"
  by (cases a; cases b; cases c; cases d) (auto simp: compareNullable_def)

lemma compareNullable_flip: "compareNullable b a d = - compareNullable a b d"
  by (cases a; cases b; cases d) (auto simp: compareNullable_def)

lemma compareNullable_zero_trans:
  "compareNullable a b d \<le> 0 \<Longrightarrow> compareNullable b c d \<le> 0 \<Longrightarrow> compareNullable a c d = 0
   \<Longrightarrow> compareNullable a b d = 0 \<and> compareNullable b c d = 0"
  by (cases a; cases b; cases c; cases d) (auto simp: compareNullable_def)

lemma comparePrice_flip: "comparePrice d b a = - comparePrice d a b"
  using compareNullable_flip [of "hs_minPrice b" "hs_minPrice a" d]
    compareNullable_flip [of "hs_rating b" "hs_rating a" Desc]
  by (simp add: comparePrice_def Let_def)

lemma compareRating_flip: "compareRating d b a = - compareRating d a b"
  using compareNullable_flip [of "hs_rating b" "hs_rating a" d]
    compareNullable_flip [of "hs_minPrice b" "hs_minPrice a" Asc]
  by (simp add: compareRating_def Let_def)

lemma lex_trans:
  fixes p1 p2 p3 q1 q2 q3 :: rat
  assumes "(if p1 \<noteq> 0 then p1 else q1) \<le> 0" "(if p2 \<noteq> 0 then p2 else q2) \<le> 0"
    and "p1 \<le> 0 \<Longrightarrow> p2 \<le> 0 \<Longrightarrow> p3 \<le> 0"
    and "p1 \<le> 0 \<Longrightarrow> p2 \<le> 0 \<Longrightarrow> p3 = 0 \<Longrightarrow> p1 = 0 \<and> p2 = 0"
    and "q1 \<le> 0 \<Longrightarrow> q2 \<le> 0 \<Longrightarrow> q3 \<le> 0"
  shows "(if p3 \<noteq> 0 then p3 else q3) \<le> 0"
  using assms by (auto split: if_splits)

lemma comparePrice_trans:
  assumes "comparePrice d a b \<le> 0" "comparePrice d b c \<le> 0"
  shows "comparePrice d a c \<le> 0"
  using assms unfolding comparePrice_def Let_def
  by (rule lex_trans) (blast intro: compareNullable_trans dest: compareNullable_zero_trans)+

lemma compareRating_trans:
  assumes "compareRating d a b \<le> 0" "compareRating d b c \<le> 0"
  shows "compareRating d a c \<le> 0"
  using assms unfolding compareRating_def Let_def
  by (rule lex_trans) (blast intro: compareNullable_trans dest: compareNullable_zero_trans)+

lemma sortHotels_missingLast: "sorted_wrt (missingLast (sortField sortBy)) (sortHotels sortBy hs)"
proof (cases sortBy)
  case PriceAsc
  have "sortField sortBy = hs_minPrice" using PriceAsc by (simp add: fun_eq_iff)
  then show ?thesis
    using PriceAsc arraySort_missingLast [OF comparePrice_le comparePrice_gt] by simp
next
  case PriceDesc
  have "sortField sortBy = hs_minPrice" using PriceDesc by (simp add: fun_eq_iff)
  then show ?thesis
    using PriceDesc arraySort_missingLast [OF comparePrice_le comparePrice_gt] by simp
next
  case RatingDesc
  have "sortField sortBy = hs_rating" using RatingDesc by (simp add: fun_eq_iff)
  then show ?thesis
    using RatingDesc arraySort_missingLast [OF compareRating_le compareRating_gt] by simp
next
  case RatingAsc
  have "sortField sortBy = hs_rating" using RatingAsc by (simp add: fun_eq_iff)
  then show ?thesis
    using RatingAsc arraySort_missingLast [OF compareRating_le compareRating_gt] by simp
qed

lemma mset_sortHotels: "mset (sortHotels sortBy hs) = mset hs"
  by (cases sortBy) (simp_all add: mset_arraySort)

text \<open>
  Claim C6. For the price and for the rating, ascending and descending, the list the
  results page shows has no hotel without the sort field before a hotel with it; the
  list holds exactly the hotels that pass the filters.
\<close>

theorem sorted_hotels_missing_last:
  "sorted_wrt (\<lambda>a b. \<not> (sortField sortBy a = None \<and> sortField sortBy b \<noteq> None))
     (sortedHotels hotels priceBounds priceRange selectedRatings sortBy)
   \<and> mset (sortedHotels hotels priceBounds priceRange selectedRatings sortBy)
       = mset (filter (keepHotel priceBounds priceRange selectedRatings) hotels)"
proof -
  have "sorted_wrt (missingLast (sortField sortBy))
          (sortedHotels hotels priceBounds priceRange selectedRatings sortBy)"
    by (simp add: sortedHotels_def sortHotels_missingLast)
  then show ?thesis
    by (simp add: missingLast_def [abs_def] sortedHotels_def mset_sortHotels)
qed

section \<open>The limit of the favorites list\<close>

lemma requestedLimit_range: "1 \<le> requestedLimit p \<and> requestedLimit p \<le> 48"
  by (simp add: requestedLimit_def clampLimit_def)

text \<open>
  Claim C9. Without a \<^verbatim>\<open>limit\<close> parameter, and with an empty one, the list query asks
  for 1 document, not for 24: \<^verbatim>\<open>Number(null)\<close> and \<^verbatim>\<open>Number("")\<close> are 0, which is
  finite and is clamped to 1. The default of 24 is reached by a parameter that is not
  numeric.
\<close>

theorem requestedLimit_missing:
  "requestedLimit None = 1 \<and> requestedLimit (Some []) = 1
   \<and> requestedLimit (Some ''abc'') = 24 \<and> requestedLimit (Some ''10'') = 10"
  by code_simp

section \<open>The toggle of a favorite\<close>

lemma present_iff: "present u h coll \<longleftrightarrow> (u, h) \<in> set (map favoriteKey coll)"
  by (auto simp: present_def list_ex_iff favoriteKey_def)

lemma findOne_None: "findOne u h coll = None \<longleftrightarrow> \<not> present u h coll"
  by (auto simp: findOne_def present_def find_None_iff list_ex_iff)

lemma findOne_Some:
  "findOne u h coll = Some e \<Longrightarrow> e \<in> set coll \<and> favoriteKey e = (u, h)"
  by (auto simp: findOne_def find_Some_iff favoriteKey_def)

lemma deleteOne_id:
  "distinct (map f_id coll) \<Longrightarrow> e \<in> set coll \<Longrightarrow> deleteOne (\<lambda>d. f_id d = f_id e) coll = remove1 e coll"
proof (induction coll)
  case Nil
  then show ?case by simp
next
  case (Cons d ds)
  show ?case
  proof (cases "d = e")
    case True
    then show ?thesis by simp
  next
    case False
    with Cons.prems have e: "e \<in> set ds" by simp
    with Cons.prems have "f_id d \<noteq> f_id e" by force
    with Cons e show ?thesis using False by simp
  qed
qed

lemma wellFormed_remove1: "wellFormed coll \<Longrightarrow> wellFormed (remove1 e coll)"
  by (simp add: wellFormed_def distinct_map distinct_remove1 inj_on_def)

lemma present_remove1:
  assumes "wellFormed coll" "e \<in> set coll"
  shows "present u h (remove1 e coll) \<longleftrightarrow> present u h coll \<and> favoriteKey e \<noteq> (u, h)"
proof -
  from assms have dist: "distinct coll" and inj: "inj_on favoriteKey (set coll)"
    by (auto simp: wellFormed_def distinct_map)
  have "set (remove1 e coll) = set coll - {e}" using dist by simp
  then have "set (map favoriteKey (remove1 e coll)) = favoriteKey ` (set coll - {e})" by simp
  also have "\<dots> = favoriteKey ` set coll - {favoriteKey e}"
    using inj assms(2) by (auto simp: inj_on_def)
  finally show ?thesis by (auto simp: present_iff)
qed

lemma upsertOne_absent: "\<not> present u h coll \<Longrightarrow> upsertOne u h p coll = coll @ [p]"
  by (induction coll) (auto simp: present_def)

lemma foldr_max_ge: "x \<in> set xs \<Longrightarrow> x \<le> foldr max xs (0::nat)"
  by (induction xs) auto

lemma freshId_fresh: "freshId coll \<notin> set (map f_id coll)"
proof
  assume "freshId coll \<in> set (map f_id coll)"
  then have "freshId coll \<le> foldr max (map f_id coll) 0" by (rule foldr_max_ge)
  then show False by (simp add: freshId_def)
qed

lemma parseString_nonempty: "parseString v = Some s \<Longrightarrow> s \<noteq> []"
  by (auto simp: parseString_def Let_def split: json.splits if_splits)

lemma POST_step:
  assumes wf: "wellFormed coll" and uid: "uid \<noteq> []"
    and code: "parseHotelCode (optField body ''hotelCode'') = Some h"
  shows "\<exists>c. POST (Some uid) body now coll = (IsFavorite (\<not> present (trim uid) h coll), c)
             \<and> wellFormed c
             \<and> (\<forall>u' h'. present u' h' c \<longleftrightarrow> (if (u', h') = (trim uid, h) then \<not> present u' h' coll else present u' h' coll))"
proof (cases "findOne (trim uid) h coll")
  case None
  then have np: "\<not> present (trim uid) h coll" by (simp add: findOne_None)
  from code have h: "h \<noteq> []" by (auto simp: parseHotelCode_def dest: parseString_nonempty)
  define p where "p = \<lparr>f_id = freshId coll,
            f_userIdString = trim uid,
            f_hotelCode = h,
            f_name = parseString (optField body ''name''),
            f_city = parseString (optField body ''city''),
            f_address = parseString (optField body ''address''),
            f_imageUrl = parseString (optField body ''imageUrl''),
            f_rating = parseNumber (optField body ''rating''),
            f_source = (case parseString (optField body ''source'') of
                          Some src \<Rightarrow> src | None \<Rightarrow> ''aoryx''),
            f_savedAt = now,
            f_updatedAt = now,
            f_createdAt = now\<rparr>"
  have post: "POST (Some uid) body now coll = (IsFavorite True, coll @ [p])"
    using None uid code h np by (simp add: POST_def Let_def upsertOne_absent p_def)
  have key: "favoriteKey p = (trim uid, h)" and pid: "f_id p = freshId coll"
    by (simp_all add: p_def favoriteKey_def)
  have wf': "wellFormed (coll @ [p])"
    using wf np freshId_fresh [of coll] by (simp add: wellFormed_def key pid present_iff)
  have "\<forall>u' h'. present u' h' (coll @ [p]) \<longleftrightarrow> (if (u', h') = (trim uid, h) then \<not> present u' h' coll else present u' h' coll)"
    using np by (auto simp: present_iff key)
  with post wf' np show ?thesis by simp
next
  case (Some e)
  then have e: "e \<in> set coll" and key: "favoriteKey e = (trim uid, h)"
    by (auto dest: findOne_Some)
  then have pr: "present (trim uid) h coll" by (force simp: present_iff)
  from code have h: "h \<noteq> []" by (auto simp: parseHotelCode_def dest: parseString_nonempty)
  from wf have "distinct (map f_id coll)" by (simp add: wellFormed_def)
  then have del: "deleteOne (\<lambda>d. f_id d = f_id e) coll = remove1 e coll"
    using e by (rule deleteOne_id)
  have post: "POST (Some uid) body now coll = (IsFavorite False, remove1 e coll)"
    using Some uid code h del by (simp add: POST_def Let_def)
  have "\<forall>u' h'. present u' h' (remove1 e coll) \<longleftrightarrow> (if (u', h') = (trim uid, h) then \<not> present u' h' coll else present u' h' coll)"
    using present_remove1 [OF wf e] key pr by auto
  with post pr wellFormed_remove1 [OF wf] show ?thesis by simp
qed

text \<open>
  Claim C3. In a collection with unique keys, for a signed-in user and a hotel code,
  two successive POSTs answer \<open>isFavorite\<close> with opposite values; each answer is the
  presence of the document of that user and hotel after the POST; and after the
  second POST the presence is the one before the first.
\<close>

theorem POST_toggle:
  assumes wf: "wellFormed coll" and uid: "uid \<noteq> []"
    and code1: "parseHotelCode (optField body1 ''hotelCode'') = Some h"
    and code2: "parseHotelCode (optField body2 ''hotelCode'') = Some h"
  shows "\<exists>b c1 c2.
           POST (Some uid) body1 now1 coll = (IsFavorite b, c1)
         \<and> POST (Some uid) body2 now2 c1 = (IsFavorite (\<not> b), c2)
         \<and> b = (\<not> present (trim uid) h coll)
         \<and> present (trim uid) h c1 = b
         \<and> present (trim uid) h c2 = (\<not> b)
         \<and> present (trim uid) h c2 = present (trim uid) h coll"
proof -
  from POST_step [OF wf uid code1, of now1] obtain c1 where
    p1: "POST (Some uid) body1 now1 coll = (IsFavorite (\<not> present (trim uid) h coll), c1)"
    and wf1: "wellFormed c1"
    and pr1: "present (trim uid) h c1 = (\<not> present (trim uid) h coll)"
    by auto
  from POST_step [OF wf1 uid code2, of now2] obtain c2 where
    p2: "POST (Some uid) body2 now2 c1 = (IsFavorite (\<not> present (trim uid) h c1), c2)"
    and pr2: "present (trim uid) h c2 = (\<not> present (trim uid) h c1)"
    by auto
  from p1 p2 pr1 pr2 show ?thesis by auto
qed

theorem POST_toggle_witness:
  "\<exists>b c1 c2.
     POST (Some ''user-1'') (JObject [(''hotelCode'', JString '' H42 ''), (''name'', JString ''Grand'')]) 5 [] = (IsFavorite b, c1)
   \<and> POST (Some ''user-1'') (JObject [(''hotelCode'', JString ''H42'')]) 6 c1 = (IsFavorite (\<not> b), c2)
   \<and> b = (\<not> present (trim ''user-1'') ''H42'' [])
   \<and> present (trim ''user-1'') ''H42'' c1 = b
   \<and> present (trim ''user-1'') ''H42'' c2 = (\<not> b)
   \<and> present (trim ''user-1'') ''H42'' c2 = present (trim ''user-1'') ''H42'' []"
proof -
  have wf: "wellFormed []" by (simp add: wellFormed_def)
  have uid: "''user-1'' \<noteq> []" by simp
  have c1: "parseHotelCode (optField (JObject [(''hotelCode'', JString '' H42 ''), (''name'', JString ''Grand'')]) ''hotelCode'') = Some ''H42''"
    by (simp add: parseHotelCode_def parseString_def optField_def trim_def trimStart_def isWhiteSpace_def)
  have c2: "parseHotelCode (optField (JObject [(''hotelCode'', JString ''H42'')]) ''hotelCode'') = Some ''H42''"
    by (simp add: parseHotelCode_def parseString_def optField_def trim_def trimStart_def isWhiteSpace_def)
  show ?thesis by (rule POST_toggle [OF wf uid c1 c2])
qed

section \<open>Strings of numbers are not empty\<close>

lemma digit_nth_nonzero: "0 < n \<Longrightarrow> n < 10 \<Longrightarrow> ''0123456789'' ! n \<noteq> CHR ''0''"
proof -
  assume "0 < n" "n < 10"
  then have "n \<in> {1, 2, 3, 4, 5, 6, 7, 8, 9}" by auto
  then show ?thesis by auto
qed

lemma natDigits_nonempty: "natDigits n \<noteq> []"
  by (subst natDigits.simps) simp

lemma natDigits_hd: "0 < n \<Longrightarrow> hd (natDigits n) \<noteq> CHR ''0''"
proof (induction n rule: natDigits.induct)
  case (1 n)
  show ?case
  proof (cases "n < 10")
    case True
    then have "natDigits n = [''0123456789'' ! n]"
      by (subst natDigits.simps) simp
    then have "hd (natDigits n) = ''0123456789'' ! n"
      by (simp only: list.sel)
    with digit_nth_nonzero [OF "1.prems" True] show ?thesis
      by metis
  next
    case False
    then have "0 < n div 10" by simp
    with 1 False have "hd (natDigits (n div 10)) \<noteq> CHR ''0''" by simp
    with False show ?thesis
      by (subst natDigits.simps) (simp add: natDigits_nonempty)
  qed
qed

lemma natDigits_stripped:
  assumes "0 < c"
  shows "rev (dropWhile isZeroChar (rev (natDigits c))) \<noteq> []"
proof -
  from natDigits_nonempty [of c] obtain d ds where ds: "natDigits c = d # ds"
    by (cases "natDigits c") auto
  with natDigits_hd [OF assms] have "\<not> isZeroChar d" by (simp add: isZeroChar_def)
  moreover have "d \<in> set (rev (natDigits c))" by (simp add: ds)
  ultimately have "dropWhile isZeroChar (rev (natDigits c)) \<noteq> []"
    by (auto simp: dropWhile_eq_Nil_conv)
  then show ?thesis by simp
qed

lemma scale10_zero: "scale10 0 p = 0"
  by (simp add: scale10_def)

lemma roundDouble_zero: "roundDouble 0 = 0"
  by (simp add: roundDouble_def)

lemma shortestCandidate_pos:
  assumes "x \<noteq> 0" and "shortestCandidate x n k = Some c"
  shows "0 < c"
proof (rule ccontr)
  assume "\<not> 0 < c"
  then have c: "c = 0" by simp
  define lo where "lo = nat \<lfloor>scale10 x (- (n - int k))\<rfloor>"
  from assms(2) have "(c = lo \<and> roundDouble (scale10 (of_nat lo) (n - int k)) = x) \<or> c = lo + 1"
    unfolding shortestCandidate_def Let_def lo_def by (auto split: if_splits)
  with c have "roundDouble (scale10 (of_nat 0) (n - int k)) = x" by auto
  with assms(1) show False by (simp add: scale10_zero roundDouble_zero)
qed

lemma shortestDigits_pos: "x \<noteq> 0 \<Longrightarrow> 0 < fst (shortestDigits fuel x n k)"
  by (induction fuel arbitrary: k) (auto split: option.splits dest: shortestCandidate_pos)

lemma positiveToString_nonempty:
  assumes "x \<noteq> 0"
  shows "positiveToString x \<noteq> []"
proof -
  obtain c p where cp: "shortestDigits 17 x (decimalExponent x) 1 = (c, p)"
    by (cases "shortestDigits 17 x (decimalExponent x) 1") auto
  with shortestDigits_pos [OF assms, of 17 "decimalExponent x" 1] have "0 < c" by simp
  then have s: "rev (dropWhile isZeroChar (rev (natDigits c))) \<noteq> []"
    by (rule natDigits_stripped)
  show ?thesis
    unfolding positiveToString_def cp Let_def prod.case using s by (auto split: if_splits)
qed

lemma numberToString_nonempty: "numberToString q \<noteq> []"
  by (simp add: numberToString_def Let_def positiveToString_nonempty)

lemma toStringValue_nonempty: "toStringValue v = Some s \<Longrightarrow> s \<noteq> []"
  by (induction v rule: toStringValue.induct) (auto simp: numberToString_nonempty split: if_splits)

lemma toStringValue_string:
  "toStringValue (JString s) = (if trim s = [] then None else Some (trim s))"
  by simp

lemma optField_coalesce_undefined: "optField (coalesce x JUndefined) k = optField x k"
  by (cases x) (simp_all add: optField_def coalesce_def)

lemma mapThrowing_Inr_D:
  "mapThrowing f xs = Inr ys \<Longrightarrow> list_all2 (\<lambda>x y. f x = Inr y) xs ys"
  by (induction xs arbitrary: ys) (auto split: sum.splits)

lemma mapThrowing_Inr_I:
  "list_all2 (\<lambda>x y. f x = Inr y) xs ys \<Longrightarrow> mapThrowing f xs = Inr ys"
  by (induction rule: list_all2_induct) auto

lemma mapThrowing_Inl: "mapThrowing f xs = Inl e \<Longrightarrow> \<exists>x\<in>set xs. f x = Inl e"
  by (induction xs) (auto split: sum.splits)

lemma mapThrowing_total:
  "list_all (\<lambda>x. \<exists>y. f x = Inr y) xs \<Longrightarrow> \<exists>ys. mapThrowing f xs = Inr ys"
  by (induction xs) (auto split: sum.splits)

lemma normalizeSearchHotel_Inl: "normalizeSearchHotel h c = Inl e \<Longrightarrow> e = TypeError \<and> nullish h"
  by (auto simp: normalizeSearchHotel_def Let_def split: if_splits)

lemma normalizeSearchHotel_total: "\<not> nullish h \<Longrightarrow> \<exists>y. normalizeSearchHotel h c = Inr y"
  by (simp add: normalizeSearchHotel_def Let_def)

lemma hotels_total:
  "list_all (\<lambda>h. \<not> nullish h) xs \<Longrightarrow> \<exists>ys. mapThrowing (\<lambda>h. normalizeSearchHotel h c) xs = Inr ys"
  by (rule mapThrowing_total) (simp add: list_all_iff normalizeSearchHotel_total)

section \<open>The steps of \<open>search\<close>\<close>

lemma search_invalid: "validateSearchParams params = Some e \<Longrightarrow> search params out = Inl e"
  by (simp add: search_def)

lemma search_threw:
  "validateSearchParams params = None \<Longrightarrow> search params (Threw m) = Inl (AoryxClientError m)"
  by (simp add: search_def)

lemma search_nullish:
  "validateSearchParams params = None \<Longrightarrow> nullish response \<Longrightarrow> search params (Returned response) = Inl TypeError"
  by (simp add: search_def)

lemma search_vendor_error:
  assumes "validateSearchParams params = None" "\<not> nullish response"
    and "\<not> truthy (getField response ''IsSuccess'')" "truthy (getField response ''ExceptionMessage'')"
  shows "search params (Returned response) =
           Inl (AoryxServiceError (getField response ''ExceptionMessage'') ''SEARCH_ERROR''
                 (coalesce (getField response ''StatusCode'') JUndefined) (getField response ''Errors''))"
  using assms by (simp add: search_def)

lemma search_no_session:
  assumes "validateSearchParams params = None" "\<not> nullish response"
    and "\<not> (\<not> truthy (getField response ''IsSuccess'') \<and> truthy (getField response ''ExceptionMessage''))"
    and "toStringValue (optField (getField response ''GeneralInfo'') ''SessionId'') = None"
  shows "search params (Returned response) =
           Inl (AoryxServiceError (JString ''No session ID in search response'')
                  ''MISSING_SESSION_ID'' JUndefined JUndefined)"
  using assms by (auto simp add: search_def extractSessionId_def optField_coalesce_undefined)

lemma search_hotels_throw:
  assumes "validateSearchParams params = None" "\<not> nullish response"
    and "\<not> (\<not> truthy (getField response ''IsSuccess'') \<and> truthy (getField response ''ExceptionMessage''))"
    and "toStringValue (optField (getField response ''GeneralInfo'') ''SessionId'') = Some sid"
    and "mapThrowing (\<lambda>h. normalizeSearchHotel h
            (toStringValue (optField (optField (getField response ''Monetary'') ''Currency'') ''Code'')))
           (hotelEntries response) = Inl e"
  shows "search params (Returned response) = Inl e"
  using assms toStringValue_nonempty [OF assms(4)]
  by (auto simp add: search_def extractSessionId_def optField_coalesce_undefined Let_def)

lemma search_returns:
  assumes "validateSearchParams params = None" "\<not> nullish response"
    and "\<not> (\<not> truthy (getField response ''IsSuccess'') \<and> truthy (getField response ''ExceptionMessage''))"
    and "toStringValue (optField (getField response ''GeneralInfo'') ''SessionId'') = Some sid"
    and "mapThrowing (\<lambda>h. normalizeSearchHotel h
            (toStringValue (optField (optField (getField response ''Monetary'') ''Currency'') ''Code'')))
           (hotelEntries response) = Inr hotels"
  shows "\<exists>r. search params (Returned response) = Inr r \<and> sr_sessionId r = sid \<and> sr_hotels r = hotels
            \<and> sr_currency r = toStringValue (optField (optField (getField response ''Monetary'') ''Currency'') ''Code'')"
  using assms toStringValue_nonempty [OF assms(4)]
  by (auto simp add: search_def extractSessionId_def optField_coalesce_undefined Let_def)

lemmas eval_string = trim_def trimStart_def isWhiteSpace_def

lemma sampleParams_valid: "validateSearchParams sampleParams = None"
  by (simp add: validateSearchParams_def sampleParams_def absent_def)

lemma hotelEntries_record: "isRecord (hotelOf response) \<Longrightarrow> hotelEntries response = [hotelOf response]"
  by (cases "hotelOf response") (simp_all add: hotelEntries_def hotelOf_def coalesce_def hotelsArray_def)

lemma hotelEntries_nullish: "nullish (hotelOf response) \<Longrightarrow> hotelEntries response = []"
  by (simp add: hotelEntries_def hotelOf_def coalesce_def hotelsArray_def)

text \<open>
  Claim C4. For valid parameters and a response that is not flagged as failed and has
  a session id: when \<^verbatim>\<open>Hotels.Hotel\<close> is a single record, \<open>search\<close> returns a result
  whose hotels are the one-element list of the normalisation of that record; when it
  is absent or null, the hotels are the empty list.
\<close>

theorem search_single_hotel:
  assumes valid: "validateSearchParams params = None"
    and resp: "\<not> nullish response"
    and ok: "\<not> (\<not> truthy (getField response ''IsSuccess'') \<and> truthy (getField response ''ExceptionMessage''))"
    and sid: "toStringValue (sessionIdOf response) = Some sid"
  shows "(isRecord (hotelOf response) \<longrightarrow>
            (\<exists>r h. search params (Returned response) = Inr r
                  \<and> normalizeSearchHotel (hotelOf response) (sr_currency r) = Inr h
                  \<and> sr_hotels r = [h]))
       \<and> (nullish (hotelOf response) \<longrightarrow>
            (\<exists>r. search params (Returned response) = Inr r \<and> sr_hotels r = []))"
proof (intro conjI impI)
  define cur where
    "cur = toStringValue (optField (optField (getField response ''Monetary'') ''Currency'') ''Code'')"
  assume rec: "isRecord (hotelOf response)"
  then have "\<not> nullish (hotelOf response)" by (cases "hotelOf response") simp_all
  then obtain h where h: "normalizeSearchHotel (hotelOf response) cur = Inr h"
    using normalizeSearchHotel_total by blast
  then have "mapThrowing (\<lambda>h. normalizeSearchHotel h cur) (hotelEntries response) = Inr [h]"
    by (simp add: hotelEntries_record [OF rec])
  from search_returns [OF valid resp ok sid [unfolded sessionIdOf_def] this [unfolded cur_def]] h
  show "\<exists>r h. search params (Returned response) = Inr r
            \<and> normalizeSearchHotel (hotelOf response) (sr_currency r) = Inr h \<and> sr_hotels r = [h]"
    unfolding cur_def by auto
next
  define cur where
    "cur = toStringValue (optField (optField (getField response ''Monetary'') ''Currency'') ''Code'')"
  assume "nullish (hotelOf response)"
  then have "mapThrowing (\<lambda>h. normalizeSearchHotel h cur) (hotelEntries response) = Inr []"
    by (simp add: hotelEntries_nullish)
  from search_returns [OF valid resp ok sid [unfolded sessionIdOf_def] this [unfolded cur_def]]
  show "\<exists>r. search params (Returned response) = Inr r \<and> sr_hotels r = []" by auto
qed

theorem search_single_hotel_witness:
  "(\<exists>r h. search sampleParams (Returned sampleSearchResponse) = Inr r
         \<and> normalizeSearchHotel (hotelOf sampleSearchResponse) (sr_currency r) = Inr h
         \<and> sr_hotels r = [h])
   \<and> (\<exists>r. search sampleParams
             (Returned (JObject [(''GeneralInfo'', JObject [(''SessionId'', JString ''S-1'')])])) = Inr r
          \<and> sr_hotels r = [])"
proof -
  have r1: "\<not> nullish sampleSearchResponse" by (simp add: sampleSearchResponse_def)
  have ok1: "\<not> (\<not> truthy (getField sampleSearchResponse ''IsSuccess'')
               \<and> truthy (getField sampleSearchResponse ''ExceptionMessage''))"
    by (simp add: sampleSearchResponse_def)
  have s1: "toStringValue (sessionIdOf sampleSearchResponse) = Some ''S-1''"
    by (simp add: sampleSearchResponse_def sessionIdOf_def optField_def eval_string)
  have h1: "isRecord (hotelOf sampleSearchResponse)"
    by (simp add: sampleSearchResponse_def hotelOf_def optField_def)
  let ?resp2 = "JObject [(''GeneralInfo'', JObject [(''SessionId'', JString ''S-1'')])]"
  have r2: "\<not> nullish ?resp2" by simp
  have ok2: "\<not> (\<not> truthy (getField ?resp2 ''IsSuccess'') \<and> truthy (getField ?resp2 ''ExceptionMessage''))"
    by simp
  have s2: "toStringValue (sessionIdOf ?resp2) = Some ''S-1''"
    by (simp add: sessionIdOf_def optField_def eval_string)
  have h2: "nullish (hotelOf ?resp2)"
    by (simp add: hotelOf_def optField_def)
  from search_single_hotel [OF sampleParams_valid r1 ok1 s1] h1
       search_single_hotel [OF sampleParams_valid r2 ok2 s2] h2
  show ?thesis by blast
qed



section \<open>Vendor errors\<close>

lemma throwsCode_Inl: "throwsCode code (Inl e) \<longleftrightarrow> errorCode e = Some code"
  by (simp add: throwsCode_def)

lemma throwsCode_Inr: "\<not> throwsCode code (Inr x)"
  by (simp add: throwsCode_def)

lemma normalizeRoomOptions_total: "\<not> nullish response \<Longrightarrow> \<exists>rs. normalizeRoomOptions response = Inr rs"
  by (simp add: normalizeRoomOptions_def)

lemma hotelsInfoItem_Inl: "hotelsInfoItem item = Inl e \<Longrightarrow> e = TypeError \<and> nullish item"
  by (auto simp: hotelsInfoItem_def Let_def split: if_splits)

lemma search_SEARCH_ERROR:
  assumes valid: "validateSearchParams params = None" and resp: "\<not> nullish response"
  shows "throwsCode ''SEARCH_ERROR'' (search params (Returned response))
         \<longleftrightarrow> \<not> truthy (getField response ''IsSuccess'') \<and> truthy (getField response ''ExceptionMessage'')"
proof (cases "\<not> truthy (getField response ''IsSuccess'') \<and> truthy (getField response ''ExceptionMessage'')")
  case True
  with search_vendor_error [OF valid resp] show ?thesis by (simp add: throwsCode_def)
next
  case False
  let ?cur = "toStringValue (optField (optField (getField response ''Monetary'') ''Currency'') ''Code'')"
  have "\<not> throwsCode ''SEARCH_ERROR'' (search params (Returned response))"
  proof (cases "toStringValue (optField (getField response ''GeneralInfo'') ''SessionId'')")
    case None
    from search_no_session [OF valid resp False None] show ?thesis by (simp add: throwsCode_def)
  next
    case (Some sid)
    show ?thesis
    proof (cases "mapThrowing (\<lambda>h. normalizeSearchHotel h ?cur) (hotelEntries response)")
      case (Inl e)
      then have "e = TypeError" by (auto dest!: mapThrowing_Inl normalizeSearchHotel_Inl)
      with search_hotels_throw [OF valid resp False Some Inl] show ?thesis
        by (simp add: throwsCode_def)
    next
      case (Inr hs)
      from search_returns [OF valid resp False Some Inr] show ?thesis
        by (auto simp: throwsCode_def)
    qed
  qed
  with False show ?thesis by simp
qed

lemma roomDetails_ROOM_DETAILS_ERROR:
  assumes valid: "validateSearchParams params = None" and code: "\<not> absent (p_hotelCode params)"
    and found: "search params searchOut = Inr found" and resp: "\<not> nullish response"
  shows "throwsCode ''ROOM_DETAILS_ERROR'' (roomDetails params searchOut (Returned response))
         \<longleftrightarrow> getField response ''IsSuccess'' = JBool False"
  using assms normalizeRoomOptions_total [OF resp]
  by (auto simp: roomDetails_def throwsCode_def)

lemma hotelInfo_HOTEL_INFO_ERROR:
  assumes resp: "\<not> nullish response"
  shows "throwsCode ''HOTEL_INFO_ERROR'' (hotelInfo (Returned response))
         \<longleftrightarrow> \<not> truthy (getField response ''IsSuccess'')"
  using resp by (simp add: hotelInfo_def throwsCode_def Let_def)

lemma hotelsInfo_HOTELS_INFO_ERROR:
  assumes resp: "\<not> nullish response"
  shows "throwsCode ''HOTELS_INFO_ERROR'' (hotelsInfoByDestinationId (Returned response))
         \<longleftrightarrow> \<not> truthy (getField response ''IsSuccess'')"
proof (cases "truthy (getField response ''IsSuccess'')")
  case False
  with resp show ?thesis by (simp add: hotelsInfoByDestinationId_def throwsCode_def Let_def)
next
  case True
  have "\<not> throwsCode ''HOTELS_INFO_ERROR'' (hotelsInfoByDestinationId (Returned response))"
  proof (cases "coalesce (getField response ''HotelsInformation'') (JArray [])")
    case (JArray items)
    show ?thesis
    proof (cases "mapThrowing hotelsInfoItem items")
      case (Inl e)
      then have "e = TypeError" by (auto dest!: mapThrowing_Inl hotelsInfoItem_Inl)
      with Inl JArray True resp show ?thesis
        by (simp add: hotelsInfoByDestinationId_def throwsCode_def Let_def)
    next
      case (Inr xs)
      with JArray True resp show ?thesis
        by (simp add: hotelsInfoByDestinationId_def throwsCode_def Let_def)
    qed
  qed (use True resp in \<open>simp_all add: hotelsInfoByDestinationId_def throwsCode_def Let_def\<close>)
  with True show ?thesis by simp
qed

text \<open>
  Claim C7, as amended. For a response that is not null: \<open>search\<close> throws
  \<^verbatim>\<open>SEARCH_ERROR\<close> exactly when \<^verbatim>\<open>IsSuccess\<close> is falsy and \<^verbatim>\<open>ExceptionMessage\<close> is
  truthy; \<open>roomDetails\<close>, once its search has returned, throws \<^verbatim>\<open>ROOM_DETAILS_ERROR\<close>
  exactly when \<^verbatim>\<open>IsSuccess\<close> is the boolean false; \<open>hotelInfo\<close> and
  \<open>hotelsInfoByDestinationId\<close> throw \<^verbatim>\<open>HOTEL_INFO_ERROR\<close> and \<^verbatim>\<open>HOTELS_INFO_ERROR\<close>
  exactly when \<^verbatim>\<open>IsSuccess\<close> is falsy, an absent flag included.
\<close>

theorem vendor_error_codes:
  "(validateSearchParams params = None \<and> \<not> nullish response \<longrightarrow>
      (throwsCode ''SEARCH_ERROR'' (search params (Returned response))
       \<longleftrightarrow> \<not> truthy (getField response ''IsSuccess'') \<and> truthy (getField response ''ExceptionMessage'')))
   \<and> (validateSearchParams params = None \<and> \<not> absent (p_hotelCode params)
        \<and> search params searchOut = Inr found \<and> \<not> nullish response \<longrightarrow>
      (throwsCode ''ROOM_DETAILS_ERROR'' (roomDetails params searchOut (Returned response))
       \<longleftrightarrow> getField response ''IsSuccess'' = JBool False))
   \<and> (\<not> nullish response \<longrightarrow>
      (throwsCode ''HOTEL_INFO_ERROR'' (hotelInfo (Returned response))
       \<longleftrightarrow> \<not> truthy (getField response ''IsSuccess'')))
   \<and> (\<not> nullish response \<longrightarrow>
      (throwsCode ''HOTELS_INFO_ERROR'' (hotelsInfoByDestinationId (Returned response))
       \<longleftrightarrow> \<not> truthy (getField response ''IsSuccess'')))"
  using search_SEARCH_ERROR roomDetails_ROOM_DETAILS_ERROR hotelInfo_HOTEL_INFO_ERROR
    hotelsInfo_HOTELS_INFO_ERROR
  by blast

lemma sample_search_returns: "\<exists>r. search sampleParams (Returned sampleSearchResponse) = Inr r"
proof -
  have "\<exists>ys. mapThrowing (\<lambda>h. normalizeSearchHotel h
            (toStringValue (optField (optField (getField sampleSearchResponse ''Monetary'') ''Currency'') ''Code'')))
           (hotelEntries sampleSearchResponse) = Inr ys"
    by (rule hotels_total)
       (simp add: sampleSearchResponse_def hotelEntries_def hotelsArray_def optField_def coalesce_def)
  then obtain ys where "mapThrowing (\<lambda>h. normalizeSearchHotel h
            (toStringValue (optField (optField (getField sampleSearchResponse ''Monetary'') ''Currency'') ''Code'')))
           (hotelEntries sampleSearchResponse) = Inr ys" ..
  from search_returns [OF sampleParams_valid _ _ _ this, of "''S-1''"]
  show ?thesis
    by (auto simp: sampleSearchResponse_def optField_def eval_string)
qed

theorem vendor_error_codes_witness:
  "throwsCode ''SEARCH_ERROR'' (search sampleParams (Returned sampleFailure))
   \<and> throwsCode ''ROOM_DETAILS_ERROR''
        (roomDetails sampleParams (Returned sampleSearchResponse) (Returned sampleFailure))
   \<and> throwsCode ''HOTEL_INFO_ERROR'' (hotelInfo (Returned sampleFailure))
   \<and> throwsCode ''HOTELS_INFO_ERROR'' (hotelsInfoByDestinationId (Returned sampleFailure))"
proof -
  from sample_search_returns obtain found where
    found: "search sampleParams (Returned sampleSearchResponse) = Inr found" ..
  have code: "\<not> absent (p_hotelCode sampleParams)" by (simp add: sampleParams_def absent_def)
  have resp: "\<not> nullish sampleFailure" by (simp add: sampleFailure_def)
  have flag: "getField sampleFailure ''IsSuccess'' = JBool False"
    and msg: "truthy (getField sampleFailure ''ExceptionMessage'')"
    by (simp_all add: sampleFailure_def)
  from vendor_error_codes [of sampleParams sampleFailure "Returned sampleSearchResponse" found]
    sampleParams_valid code found resp flag msg
  show ?thesis by simp
qed

text \<open>
  Claim C7 as stated fails in both directions: a response with neither a failure flag
  nor an exception message makes \<open>hotelInfo\<close> and \<open>hotelsInfoByDestinationId\<close> throw
  their vendor error, and a response with the explicit flag \<^verbatim>\<open>IsSuccess: false\<close> and no
  message makes \<open>search\<close> return a result.
\<close>

theorem vendor_error_codes_counterexample:
  "getField sampleUnflagged ''IsSuccess'' = JUndefined
   \<and> getField sampleUnflagged ''ExceptionMessage'' = JUndefined
   \<and> throwsCode ''HOTEL_INFO_ERROR'' (hotelInfo (Returned sampleUnflagged))
   \<and> throwsCode ''HOTELS_INFO_ERROR'' (hotelsInfoByDestinationId (Returned sampleUnflagged))
   \<and> getField sampleFlagged ''IsSuccess'' = JBool False
   \<and> (\<exists>r. search sampleParams (Returned sampleFlagged) = Inr r)"
proof -
  have "mapThrowing (\<lambda>h. normalizeSearchHotel h
            (toStringValue (optField (optField (getField sampleFlagged ''Monetary'') ''Currency'') ''Code'')))
           (hotelEntries sampleFlagged) = Inr []"
    by (simp add: sampleFlagged_def hotelEntries_def hotelsArray_def optField_def coalesce_def)
  from search_returns [OF sampleParams_valid _ _ _ this, of "''S-1''"]
  have "\<exists>r. search sampleParams (Returned sampleFlagged) = Inr r"
    by (auto simp: sampleFlagged_def optField_def eval_string)
  then show ?thesis
    by (simp add: sampleUnflagged_def sampleFlagged_def hotelInfo_def hotelsInfoByDestinationId_def
        throwsCode_def coalesce_def)
qed

section \<open>What can throw\<close>

lemma validateSearchParams_error: "validateSearchParams params = Some e \<Longrightarrow> e \<noteq> TypeError"
  by (auto simp: validateSearchParams_def invalidParams_def split: if_splits)

lemma search_no_TypeError:
  assumes resp: "\<not> nullish response" and hotels: "list_all (\<lambda>h. \<not> nullish h) (hotelEntries response)"
  shows "search params (Returned response) \<noteq> Inl TypeError"
proof (cases "validateSearchParams params")
  case (Some e)
  with validateSearchParams_error [OF Some] show ?thesis by (simp add: search_invalid)
next
  case None
  show ?thesis
  proof (cases "\<not> truthy (getField response ''IsSuccess'') \<and> truthy (getField response ''ExceptionMessage'')")
    case True
    with search_vendor_error [OF None resp] show ?thesis by simp
  next
    case False
    show ?thesis
    proof (cases "toStringValue (optField (getField response ''GeneralInfo'') ''SessionId'')")
      case None': None
      from search_no_session [OF None resp False None'] show ?thesis by simp
    next
      case (Some sid)
      from hotels_total [OF hotels] obtain hs where
        "mapThrowing (\<lambda>h. normalizeSearchHotel h
            (toStringValue (optField (optField (getField response ''Monetary'') ''Currency'') ''Code'')))
           (hotelEntries response) = Inr hs" by blast
      from search_returns [OF None resp False Some this] show ?thesis by auto
    qed
  qed
qed

lemma roomDetails_no_TypeError:
  assumes "\<not> nullish searchResponse"
    and "list_all (\<lambda>h. \<not> nullish h) (hotelEntries searchResponse)"
    and "\<not> nullish response"
  shows "roomDetails params (Returned searchResponse) (Returned response) \<noteq> Inl TypeError"
  using search_no_TypeError [OF assms(1,2), of params] assms(3)
  by (auto simp: roomDetails_def normalizeRoomOptions_def invalidParams_def
      dest: validateSearchParams_error split: option.splits sum.splits)

lemma hotelInfo_no_TypeError:
  "\<not> nullish response \<Longrightarrow> hotelInfo (Returned response) \<noteq> Inl TypeError"
  by (simp add: hotelInfo_def Let_def)

lemma hotelsInfo_no_TypeError:
  assumes "\<not> nullish response"
    and "coalesce (getField response ''HotelsInformation'') (JArray []) = JArray items"
    and "list_all (\<lambda>item. \<not> nullish item) items"
  shows "hotelsInfoByDestinationId (Returned response) \<noteq> Inl TypeError"
proof -
  have "list_all (\<lambda>x. \<exists>y. hotelsInfoItem x = Inr y) items"
    using assms(3) by (simp add: list_all_iff hotelsInfoItem_def Let_def)
  then obtain ys where "mapThrowing hotelsInfoItem items = Inr ys"
    using mapThrowing_total by blast
  with assms(1,2) show ?thesis
    by (simp add: hotelsInfoByDestinationId_def Let_def)
qed

text \<open>
  Claim C1. The normalisation of vendor data throws on the declared failures only.
  It does not hold for \<open>search\<close>: on a response with a session id whose
  \<^verbatim>\<open>Hotels.Hotel\<close> is the array \<^verbatim>\<open>[null]\<close>, \<open>search\<close> maps \<open>normalizeSearchHotel\<close> over
  the null entry and throws a TypeError, which is none of the declared failures.
  \<open>normalizeRoomOptions\<close> drops such an entry of \<^verbatim>\<open>RoomDetails.RoomDetail\<close> with
  \<^verbatim>\<open>filter(isRecord)\<close> and normalises the record behind it.
\<close>

theorem search_null_hotel_throws:
  "hotelEntries sampleNullHotel = [JNull]
   \<and> normalizeSearchHotel JNull None = Inl TypeError
   \<and> search sampleParams (Returned sampleNullHotel) = Inl TypeError
   \<and> normalizeRoomOptions sampleNullRoom
       = Inr [normalizeRoom (JObject [(''RoomCode'', JString ''R1'')]) 0]"
proof -
  have a: "hotelEntries sampleNullHotel = [JNull]"
    by (simp add: sampleNullHotel_def hotelEntries_def hotelsArray_def optField_def coalesce_def)
  have b: "normalizeSearchHotel JNull None = Inl TypeError"
    by (simp add: normalizeSearchHotel_def)
  have "mapThrowing (\<lambda>h. normalizeSearchHotel h
            (toStringValue (optField (optField (getField sampleNullHotel ''Monetary'') ''Currency'') ''Code'')))
           (hotelEntries sampleNullHotel) = Inl TypeError"
    by (simp add: a normalizeSearchHotel_def)
  from search_hotels_throw [OF sampleParams_valid _ _ _ this, of "''S-1''"]
  have c: "search sampleParams (Returned sampleNullHotel) = Inl TypeError"
    by (simp add: sampleNullHotel_def optField_def eval_string)
  have "resolvedRoomItems sampleNullRoom = [JObject [(''RoomCode'', JString ''R1'')]]"
    by (simp add: sampleNullRoom_def resolvedRoomItems_def roomItems_def roomSources_def
        optField_def normalizeArray_def)
  moreover have "nullish sampleNullRoom = False" by (simp add: sampleNullRoom_def)
  ultimately have d: "normalizeRoomOptions sampleNullRoom
       = Inr [normalizeRoom (JObject [(''RoomCode'', JString ''R1'')]) 0]"
    by (simp add: normalizeRoomOptions_def)
  from a b c d show ?thesis by (intro conjI)
qed

section \<open>Money\<close>

lemma coalesce_nullish: "nullish a \<Longrightarrow> coalesce a b = b"
  by (simp add: coalesce_def)

lemma coalesce_present: "\<not> nullish a \<Longrightarrow> coalesce a b = a"
  by (simp add: coalesce_def)

lemma digit_not_space: "isDigit c \<Longrightarrow> \<not> isWhiteSpace c"
  by (auto simp: isDigit_def isWhiteSpace_def)

lemma digit_not_sign:
  "isDigit c \<Longrightarrow> c \<noteq> CHR ''-'' \<and> c \<noteq> CHR ''+'' \<and> c \<noteq> CHR ''I'' \<and> c \<noteq> CHR ''.''
     \<and> c \<noteq> CHR ''e'' \<and> c \<noteq> CHR ''E''"
  by (auto simp: isDigit_def)

lemma point_not_space: "\<not> isWhiteSpace CHR ''.'' \<and> \<not> isWhiteSpace CHR ''+'' \<and> \<not> isWhiteSpace CHR ''-''"
  by (simp add: isWhiteSpace_def)

lemma takeWhile_digits:
  "list_all isDigit ds \<Longrightarrow> noDigitAhead t \<Longrightarrow> takeWhile isDigit (ds @ t) = ds"
  by (cases t) (auto simp: list_all_iff noDigitAhead_def takeWhile_append2)

lemma dropWhile_digits:
  "list_all isDigit ds \<Longrightarrow> noDigitAhead t \<Longrightarrow> dropWhile isDigit (ds @ t) = t"
  by (cases t) (auto simp: list_all_iff noDigitAhead_def dropWhile_append2)

lemma trimStart_body:
  assumes "list_all isWhiteSpace w" and "case x of [] \<Rightarrow> True | c # _ \<Rightarrow> \<not> isWhiteSpace c"
  shows "trimStart (w @ x) = x"
proof -
  have "dropWhile isWhiteSpace (w @ x) = dropWhile isWhiteSpace x"
    using assms(1) by (simp add: list_all_iff)
  also have "\<dots> = x" using assms(2) by (cases x) simp_all
  finally show ?thesis by (simp only: trimStart_def)
qed

lemma exponentPart_none:
  assumes "\<not> exponentStart r"
  shows "exponentPart r = (0, r)"
proof (cases r)
  case Nil
  then show ?thesis by simp
next
  case (Cons c cs)
  show ?thesis
  proof (cases "c = CHR ''e'' \<or> c = CHR ''E''")
    case False
    with Cons show ?thesis by simp
  next
    case True
    with assms Cons have "case snd (stripSign cs) of [] \<Rightarrow> True | d # _ \<Rightarrow> \<not> isDigit d"
      by (auto simp: exponentStart_def split: list.splits)
    then have "takeWhile isDigit (snd (stripSign cs)) = []"
      by (cases "snd (stripSign cs)") simp_all
    with True Cons show ?thesis
      by (cases "stripSign cs") (simp add: Let_def)
  qed
qed

lemma stripSign_sign:
  assumes "isSign sg" and "case x of [] \<Rightarrow> True | c # _ \<Rightarrow> c \<noteq> CHR ''-'' \<and> c \<noteq> CHR ''+''"
  shows "stripSign (sg @ x) = (sg = ''-'', x)"
  using assms by (cases x) (auto simp: isSign_def)

lemma exponentPart_some:
  assumes c: "c = CHR ''e'' \<or> c = CHR ''E''" and sg: "isSign sg"
    and ds: "ds \<noteq> []" "list_all isDigit ds" and r: "noDigitAhead r"
  shows "exponentPart (c # sg @ ds @ r)
           = (if sg = ''-'' then - int (decimalValue ds) else int (decimalValue ds), r)"
proof -
  from ds obtain d ds' where d: "ds = d # ds'" "isDigit d" by (cases ds) auto
  have "case ds @ r of [] \<Rightarrow> True | c # _ \<Rightarrow> c \<noteq> CHR ''-'' \<and> c \<noteq> CHR ''+''"
    using d digit_not_sign [of d] by simp
  with sg have ss: "stripSign (sg @ ds @ r) = (sg = ''-'', ds @ r)" by (rule stripSign_sign)
  have t: "takeWhile isDigit (ds @ r) = ds" and dr: "dropWhile isDigit (ds @ r) = r"
    using ds(2) r by (simp_all add: takeWhile_digits dropWhile_digits)
  show ?thesis
    using c ds(1) by (simp add: ss t dr Let_def del: stripSign.simps)
qed

lemma exponentPart_literal:
  assumes wf: "wellFormedLiteral l" and e: "endsLiteral l r"
  shows "exponentPart (exponentText (l_exp l) @ r) = (literalExponent l, r)"
proof (cases "l_exp l")
  case None
  with e have "\<not> exponentStart r"
    by (cases r) (auto simp: endsLiteral_def exponentStart_def)
  with None show ?thesis
    by (simp add: exponentText_def literalExponent_def exponentPart_none)
next
  case (Some x)
  obtain c sg ds where x: "x = (c, sg, ds)" by (cases x) auto
  from wf Some x have c: "c = CHR ''e'' \<or> c = CHR ''E''" and sg: "isSign sg"
    and ds: "ds \<noteq> []" "list_all isDigit ds"
    by (simp_all add: wellFormedLiteral_def)
  from e have r: "noDigitAhead r"
    by (cases r) (auto simp: endsLiteral_def noDigitAhead_def)
  from exponentPart_some [OF c sg ds r] Some x show ?thesis
    by (simp add: exponentText_def literalExponent_def)
qed

lemma exponentText_start:
  "wellFormedLiteral l \<Longrightarrow> l_exp l \<noteq> None
   \<Longrightarrow> \<exists>c t. exponentText (l_exp l) = c # t \<and> (c = CHR ''e'' \<or> c = CHR ''E'')"
  by (auto simp: wellFormedLiteral_def exponentText_def)

text \<open>What stands behind the digits before the point, and behind those after it.\<close>

lemma behind_fraction:
  assumes wf: "wellFormedLiteral l" and e: "endsLiteral l r"
  shows "noDigitAhead (exponentText (l_exp l) @ r)"
proof (cases "l_exp l")
  case None
  with e show ?thesis
    by (cases r) (auto simp: endsLiteral_def noDigitAhead_def exponentText_def)
next
  case (Some x)
  then have "l_exp l \<noteq> None" by simp
  from exponentText_start [OF wf this] obtain c t where
    "exponentText (l_exp l) = c # t" "c = CHR ''e'' \<or> c = CHR ''E''" by blast
  then show ?thesis by (auto simp: noDigitAhead_def isDigit_def)
qed

lemma unsignedDecimal_literal:
  assumes wf: "wellFormedLiteral l" and e: "endsLiteral l r"
  shows "unsignedDecimal (l_int l @ (if l_dot l then ''.'' else []) @ l_frac l
            @ exponentText (l_exp l) @ r)
           = Some (literalMagnitude l, r)"
proof -
  let ?tail = "exponentText (l_exp l) @ r"
  from wf have ip: "list_all isDigit (l_int l)" and fp: "list_all isDigit (l_frac l)"
    and some: "l_int l \<noteq> [] \<or> l_frac l \<noteq> []" and dotfrac: "l_dot l \<or> l_frac l = []"
    by (simp_all add: wellFormedLiteral_def)
  have tail: "noDigitAhead ?tail" by (rule behind_fraction [OF wf e])
  have ex: "exponentPart ?tail = (literalExponent l, r)" by (rule exponentPart_literal [OF wf e])
  show ?thesis
  proof (cases "l_dot l")
    case True
    have nd: "noDigitAhead (CHR ''.'' # l_frac l @ ?tail)" by (simp add: noDigitAhead_def isDigit_def)
    have t1: "takeWhile isDigit (l_int l @ CHR ''.'' # l_frac l @ ?tail) = l_int l"
      and d1: "dropWhile isDigit (l_int l @ CHR ''.'' # l_frac l @ ?tail) = CHR ''.'' # l_frac l @ ?tail"
      using ip nd by (simp_all add: takeWhile_digits dropWhile_digits)
    have t2: "takeWhile isDigit (l_frac l @ ?tail) = l_frac l"
      and d2: "dropWhile isDigit (l_frac l @ ?tail) = ?tail"
      using fp tail by (simp_all add: takeWhile_digits dropWhile_digits)
    show ?thesis
      using True some
      by (simp add: unsignedDecimal_def Let_def t1 d1 t2 d2 ex literalMagnitude_def del: append_assoc)
  next
    case False
    with dotfrac have nofrac: "l_frac l = []" by simp
    with some have ipne: "l_int l \<noteq> []" by simp
    have t1: "takeWhile isDigit (l_int l @ ?tail) = l_int l"
      and d1: "dropWhile isDigit (l_int l @ ?tail) = ?tail"
      using ip tail by (simp_all add: takeWhile_digits dropWhile_digits)
    have nodot: "(case ?tail of [] \<Rightarrow> False | c # _ \<Rightarrow> c = CHR ''.'') = False"
    proof (cases "l_exp l")
      case None
      with e False show ?thesis
        by (cases r) (auto simp: endsLiteral_def exponentText_def)
    next
      case (Some x)
      then have "l_exp l \<noteq> None" by simp
      from exponentText_start [OF wf this] obtain c t where
        "exponentText (l_exp l) = c # t" "c = CHR ''e'' \<or> c = CHR ''E''" by blast
      then show ?thesis by auto
    qed
    show ?thesis
      using False nofrac ipne
      by (simp add: unsignedDecimal_def Let_def t1 d1 nodot ex literalMagnitude_def del: append_assoc)
  qed
qed

lemma body_start:
  assumes wf: "wellFormedLiteral l"
  shows "\<exists>c t. l_int l @ (if l_dot l then ''.'' else []) @ l_frac l @ exponentText (l_exp l) @ r = c # t
           \<and> (isDigit c \<or> c = CHR ''.'')"
proof (cases "l_int l")
  case (Cons c cs)
  with wf show ?thesis by (simp add: wellFormedLiteral_def)
next
  case Nil
  with wf have "l_frac l \<noteq> []" and "l_dot l" by (auto simp: wellFormedLiteral_def)
  with Nil show ?thesis by simp
qed

lemma parseFloat_literal:
  assumes w: "list_all isWhiteSpace w" and wf: "wellFormedLiteral l" and e: "endsLiteral l r"
  shows "parseFloat (w @ literalText l @ r) = literalNumber l"
proof -
  let ?body = "l_int l @ (if l_dot l then ''.'' else []) @ l_frac l @ exponentText (l_exp l) @ r"
  from body_start [OF wf, of r] obtain c t where b: "?body = c # t" and c: "isDigit c \<or> c = CHR ''.''"
    by blast
  from wf have sg: "isSign (l_sign l)" by (simp add: wellFormedLiteral_def)
  have lt: "literalText l @ r = l_sign l @ ?body" by (simp add: literalText_def)
  have nospace: "\<not> isWhiteSpace c" using c digit_not_space point_not_space by blast
  have nosign: "c \<noteq> CHR ''-'' \<and> c \<noteq> CHR ''+'' \<and> c \<noteq> CHR ''I''" using c digit_not_sign by auto
  have "case l_sign l @ ?body of [] \<Rightarrow> True | c # _ \<Rightarrow> \<not> isWhiteSpace c"
    using sg nospace point_not_space by (auto simp: isSign_def b)
  with w have ts: "trimStart (w @ literalText l @ r) = l_sign l @ ?body"
    unfolding lt by (rule trimStart_body)
  have "case ?body of [] \<Rightarrow> True | c # _ \<Rightarrow> c \<noteq> CHR ''-'' \<and> c \<noteq> CHR ''+''"
    using nosign by (simp add: b)
  with sg have ss: "stripSign (l_sign l @ ?body) = (l_sign l = ''-'', ?body)"
    by (rule stripSign_sign)
  have inf: "\<not> startsWith ?body ''Infinity''"
    using nosign by (simp add: b startsWith_def)
  show ?thesis
    unfolding parseFloat_def ts ss prod.case Let_def
    using inf unsignedDecimal_literal [OF wf e]
    by (simp add: literalNumber_def del: append_assoc append.simps)
qed

lemma parseFloat_infinity:
  assumes w: "list_all isWhiteSpace w" and sg: "isSign sg"
  shows "parseFloat (w @ sg @ ''Infinity'' @ r) = (if sg = ''-'' then NegInf else PosInf)"
proof -
  have "case sg @ ''Infinity'' @ r of [] \<Rightarrow> True | c # _ \<Rightarrow> \<not> isWhiteSpace c"
    using sg by (auto simp: isSign_def isWhiteSpace_def)
  with w have ts: "trimStart (w @ sg @ ''Infinity'' @ r) = sg @ ''Infinity'' @ r"
    by (rule trimStart_body)
  have ss: "stripSign (sg @ ''Infinity'' @ r) = (sg = ''-'', ''Infinity'' @ r)"
    using sg by (intro stripSign_sign) simp_all
  show ?thesis
    unfolding parseFloat_def ts ss prod.case Let_def by (simp add: startsWith_def)
qed

lemma unsignedDecimal_none:
  assumes "case r of [] \<Rightarrow> True
           | c # cs \<Rightarrow> \<not> isDigit c \<and> (c \<noteq> CHR ''.'' \<or> (case cs of [] \<Rightarrow> True | d # _ \<Rightarrow> \<not> isDigit d))"
  shows "unsignedDecimal r = None"
proof (cases r)
  case Nil
  then show ?thesis by (simp add: unsignedDecimal_def)
next
  case (Cons c cs)
  with assms have c: "\<not> isDigit c" by simp
  show ?thesis
  proof (cases "c = CHR ''.''")
    case False
    with Cons c show ?thesis by (simp add: unsignedDecimal_def)
  next
    case True
    with assms Cons have "takeWhile isDigit cs = []" by (cases cs) auto
    with True Cons c show ?thesis by (simp add: unsignedDecimal_def)
  qed
qed

lemma parseFloat_no_number:
  assumes w: "list_all isWhiteSpace w" and sg: "isSign sg" and r: "startsNoNumber sg r"
  shows "parseFloat (w @ sg @ r) = NaN"
proof -
  from r have inf: "\<not> startsWith r ''Infinity''" by (simp add: startsNoNumber_def)
  from r have ud: "unsignedDecimal r = None"
    by (intro unsignedDecimal_none) (auto simp: startsNoNumber_def split: list.splits)
  have "case sg @ r of [] \<Rightarrow> True | c # _ \<Rightarrow> \<not> isWhiteSpace c"
    using sg r point_not_space by (auto simp: isSign_def startsNoNumber_def split: list.splits)
  with w have ts: "trimStart (w @ sg @ r) = sg @ r" by (rule trimStart_body)
  have "case r of [] \<Rightarrow> True | c # _ \<Rightarrow> sg = [] \<longrightarrow> c \<noteq> CHR ''-'' \<and> c \<noteq> CHR ''+''"
    using r by (auto simp: startsNoNumber_def split: list.splits)
  then have ss: "stripSign (sg @ r) = (sg = ''-'', r) \<or> (sg \<noteq> [] \<and> stripSign (sg @ r) = (sg = ''-'', r))"
    using sg by (cases r) (auto simp: isSign_def)
  then have ss': "stripSign (sg @ r) = (sg = ''-'', r)" by blast
  show ?thesis
    unfolding parseFloat_def ts ss' prod.case Let_def using inf ud by simp
qed

subsection \<open>Integers that are doubles\<close>

text \<open>An integer below \<open>2^53\<close> is a double.\<close>

lemma bitLength_bounds:
  "0 < n \<Longrightarrow> 2 ^ (bitLength n - 1) \<le> n \<and> n < 2 ^ bitLength n"
proof (induction n rule: bitLength.induct)
  case (1 n)
  then have n: "n \<noteq> 0" by simp
  then have bl: "bitLength n = Suc (bitLength (n div 2))"
    by (subst bitLength.simps) simp
  show ?case
  proof (cases "n div 2 = 0")
    case True
    with n have "n = 1" by (metis One_nat_def div_less_iff_less_mult less_2_cases_iff
          mult_2_right not_gr_zero one_add_one pos2 div_eq_0_iff zero_neq_numeral)
    moreover have "bitLength (0::nat) = 0" by (subst bitLength.simps) simp
    ultimately show ?thesis using bl True by simp
  next
    case False
    then have pos: "0 < n div 2" by simp
    with "1.IH" n have ih: "2 ^ (bitLength (n div 2) - 1) \<le> n div 2"
      "n div 2 < 2 ^ bitLength (n div 2)" by simp_all
    have b1: "1 \<le> bitLength (n div 2)"
      using pos by (subst bitLength.simps) simp
    then obtain b where b: "bitLength (n div 2) = Suc b" by (cases "bitLength (n div 2)") auto
    from ih b have "2 ^ b \<le> n div 2" "n div 2 < 2 ^ Suc b" by simp_all
    then have "2 * 2 ^ b \<le> n" "n < 2 * 2 ^ Suc b" by linarith+
    then show ?thesis by (simp add: bl b)
  qed
qed

lemma roundHalfEven_int: "roundHalfEven (of_int z) = z"
  by (simp add: roundHalfEven_def)

lemma roundDouble_nat:
  assumes "m < 2 ^ 53"
  shows "roundDouble (of_nat m) = of_nat m"
proof (cases "m = 0")
  case True
  then show ?thesis by (simp add: roundDouble_def)
next
  case False
  then have pos: "0 < m" by simp
  from bitLength_bounds [OF pos] have lo: "2 ^ (bitLength m - 1) \<le> m" and hi: "m < 2 ^ bitLength m"
    by simp_all
  from lo assms have "(2::nat) ^ (bitLength m - 1) < 2 ^ 53" by linarith
  then have "bitLength m - 1 < 53" by (simp only: power_strict_increasing_iff one_less_numeral_iff semiring_norm)
  moreover from hi pos have "0 < bitLength m" by (cases "bitLength m") auto
  ultimately have bl: "0 < bitLength m \<and> bitLength m \<le> 53" by arith
  define k where "k = 53 - bitLength m"
  from bl have k: "bitLength m = Suc (52 - k)" "k \<le> 52"
    unfolding k_def by arith+
  have q: "(1::rat) \<le> of_nat m" using pos by simp
  have e: "binaryExponent (of_nat m) = 52 - int k"
    using q k by (simp add: binaryExponent_def of_nat_diff)
  have ulp: "pow2 (max (52 - int k) (- 1022) - 52) = 1 / 2 ^ k"
    using k(2) by (cases "k = 0") (simp_all add: pow2_def max_def)
  have "of_nat m / (1 / 2 ^ k) = (of_int (int m * 2 ^ k) :: rat)" by simp
  then have "roundHalfEven (of_nat m / (1 / 2 ^ k)) = int m * 2 ^ k"
    by (simp only: roundHalfEven_int)
  then show ?thesis
    using pos by (simp add: roundDouble_def e ulp Let_def)
qed

lemma literalNumber_integer:
  assumes "wellFormedLiteral l" "l_frac l = []" "l_exp l = None" "decimalValue (l_int l) < 2 ^ 53"
  shows "literalNumber l
           = Finite ((if l_sign l = ''-'' then - 1 else 1) * of_nat (decimalValue (l_int l)))"
proof -
  have m: "literalMagnitude l = of_nat (decimalValue (l_int l))"
    using assms(2,3) by (simp add: literalMagnitude_def literalExponent_def scale10_def)
  have "of_nat (decimalValue (l_int l)) < (2 ^ 53 :: rat)"
    using assms(4) by (metis of_nat_less_iff of_nat_numeral of_nat_power)
  also have "\<dots> < infinityBound" by (simp add: infinityBound_def)
  finally have "\<not> infinityBound \<le> of_nat (decimalValue (l_int l))" by simp
  then show ?thesis
    by (simp add: literalNumber_def toDouble_def m roundDouble_nat [OF assms(4)] Let_def)
qed

subsection \<open>The amount\<close>

lemma moneyKeys_first:
  assumes "moneyKeys = before @ key # after"
    and "list_all (\<lambda>k. nullish (getField v k)) before" and "\<not> nullish (getField v key)"
  shows "coalesce (coalesce (coalesce (coalesce (coalesce
            (getField v ''Amount'') (getField v ''TotalAmount'')) (getField v ''Value''))
            (getField v ''Price'')) (getField v ''Net'')) (getField v ''NetAmount'') = getField v key"
  using assms by (auto simp: moneyKeys_def Cons_eq_append_conv coalesce_def)

lemma moneyKeys_none:
  assumes "list_all (\<lambda>k. nullish (getField v k)) moneyKeys"
  shows "coalesce (coalesce (coalesce (coalesce (coalesce
            (getField v ''Amount'') (getField v ''TotalAmount'')) (getField v ''Value''))
            (getField v ''Price'')) (getField v ''Net'')) (getField v ''NetAmount'') = getField v ''NetAmount''"
  using assms by (simp add: moneyKeys_def coalesce_def)

lemma toNumber_nullish: "nullish x \<Longrightarrow> toNumber x = None"
  by (cases x) simp_all

lemma toNumber_string: "toNumber (JString s) = finiteValue (parseFloat s)"
  by (simp add: finiteValue_def)

text \<open>Every string is of one of three shapes.\<close>

lemma digits_split:
  "\<exists>ds r. t = ds @ r \<and> list_all isDigit ds \<and> noDigitAhead r \<and> (ds = [] \<longleftrightarrow> noDigitAhead t)"
proof -
  have "t = takeWhile isDigit t @ dropWhile isDigit t" by simp
  moreover have "list_all isDigit (takeWhile isDigit t)"
    by (auto simp: list_all_iff dest: set_takeWhileD)
  moreover have "noDigitAhead (dropWhile isDigit t)"
    by (induction t) (simp_all add: noDigitAhead_def)
  moreover have "takeWhile isDigit t = [] \<longleftrightarrow> noDigitAhead t"
    by (cases t) (simp_all add: noDigitAhead_def)
  ultimately show ?thesis by blast
qed

lemma sign_split:
  "\<exists>sg. isSign sg \<and> x = sg @ snd (stripSign x)
     \<and> (sg = [] \<longrightarrow> (case x of [] \<Rightarrow> True | c # _ \<Rightarrow> c \<noteq> CHR ''+'' \<and> c \<noteq> CHR ''-''))"
proof (cases x)
  case Nil
  then show ?thesis by (simp add: isSign_def)
next
  case (Cons c cs)
  show ?thesis
  proof (cases "c = CHR ''-'' \<or> c = CHR ''+''")
    case True
    then have "isSign [c] \<and> x = [c] @ snd (stripSign x) \<and> [c] \<noteq> []"
      using Cons by (auto simp: isSign_def)
    then show ?thesis by blast
  next
    case False
    then have "isSign [] \<and> x = [] @ snd (stripSign x)
        \<and> (case x of [] \<Rightarrow> True | c # _ \<Rightarrow> c \<noteq> CHR ''+'' \<and> c \<noteq> CHR ''-'')"
      using Cons by (auto simp: isSign_def)
    then show ?thesis by blast
  qed
qed

lemma exponent_split:
  "\<exists>ex t. r = exponentText ex @ t
     \<and> (case ex of
          None \<Rightarrow> True
        | Some (c, sg, ds) \<Rightarrow>
            (c = CHR ''e'' \<or> c = CHR ''E'') \<and> isSign sg \<and> ds \<noteq> [] \<and> list_all isDigit ds)
     \<and> (case ex of None \<Rightarrow> t = r \<and> \<not> exponentStart r | Some _ \<Rightarrow> noDigitAhead t)"
proof (cases "exponentStart r")
  case False
  then have "r = exponentText None @ r \<and> (r = r \<and> \<not> exponentStart r)"
    by (simp add: exponentText_def)
  then show ?thesis
    by (intro exI [of _ None] exI [of _ r]) simp
next
  case True
  then obtain c cs where r: "r = c # cs" and c: "c = CHR ''e'' \<or> c = CHR ''E''"
    and d: "\<not> noDigitAhead (snd (stripSign cs))"
    by (cases r) (auto simp: exponentStart_def noDigitAhead_def split: list.splits)
  from sign_split [of cs] obtain sg where sg: "isSign sg" "cs = sg @ snd (stripSign cs)"
    by blast
  from digits_split [of "snd (stripSign cs)"] obtain ds t where
    ds: "snd (stripSign cs) = ds @ t" "list_all isDigit ds" "noDigitAhead t" "ds \<noteq> []"
    using d by blast
  have "r = exponentText (Some (c, sg, ds)) @ t"
    using r sg(2) ds(1) by (simp add: exponentText_def)
  with c sg(1) ds show ?thesis
    by (intro exI [of _ "Some (c, sg, ds)"] exI [of _ t]) simp
qed

lemma literal_end:
  assumes "noDigitAhead r2"
    and "dot \<or> (case r2 of [] \<Rightarrow> True | c # _ \<Rightarrow> c \<noteq> CHR ''.'')"
    and "case ex of None \<Rightarrow> t = r2 \<and> \<not> exponentStart r2 | Some _ \<Rightarrow> noDigitAhead t"
  shows "endsLiteral \<lparr>l_sign = sg, l_int = ip, l_dot = dot, l_frac = fp, l_exp = ex\<rparr> t"
  using assms by (cases ex; cases t) (auto simp: endsLiteral_def noDigitAhead_def)

lemma literal_found:
  assumes sg: "isSign sg" and ip: "list_all isDigit ip" and fp: "list_all isDigit fp"
    and some: "ip \<noteq> [] \<or> fp \<noteq> []" and dot: "dot \<or> fp = []"
    and r2: "noDigitAhead r2" "dot \<or> (case r2 of [] \<Rightarrow> True | c # _ \<Rightarrow> c \<noteq> CHR ''.'')"
  shows "\<exists>l t. wellFormedLiteral l \<and> l_sign l = sg \<and> endsLiteral l t
           \<and> sg @ ip @ (if dot then ''.'' else []) @ fp @ r2 = literalText l @ t"
proof -
  from exponent_split [of r2] obtain ex t where
    ex: "r2 = exponentText ex @ t"
      "case ex of
          None \<Rightarrow> True
        | Some (c, sg, ds) \<Rightarrow>
            (c = CHR ''e'' \<or> c = CHR ''E'') \<and> isSign sg \<and> ds \<noteq> [] \<and> list_all isDigit ds"
      "case ex of None \<Rightarrow> t = r2 \<and> \<not> exponentStart r2 | Some _ \<Rightarrow> noDigitAhead t"
    by blast
  let ?l = "\<lparr>l_sign = sg, l_int = ip, l_dot = dot, l_frac = fp, l_exp = ex\<rparr>"
  have "wellFormedLiteral ?l"
    using sg ip fp some dot ex(2) by (simp add: wellFormedLiteral_def)
  moreover have "endsLiteral ?l t"
    using r2 ex(3) by (rule literal_end)
  moreover have "sg @ ip @ (if dot then ''.'' else []) @ fp @ r2 = literalText ?l @ t"
    using ex(1) by (simp add: literalText_def)
  ultimately show ?thesis
    by (intro exI [of _ ?l] exI [of _ t]) simp
qed

lemma unsigned_shapes:
  assumes "isSign sg"
  shows "(\<exists>l t. wellFormedLiteral l \<and> l_sign l = sg \<and> endsLiteral l t
            \<and> sg @ r = literalText l @ t)
         \<or> (case r of
               [] \<Rightarrow> True
             | c # cs \<Rightarrow> \<not> isDigit c
                        \<and> (c \<noteq> CHR ''.'' \<or> (case cs of [] \<Rightarrow> True | d # _ \<Rightarrow> \<not> isDigit d)))"
proof -
  from digits_split [of r] obtain ip r1 where
    ip: "r = ip @ r1" "list_all isDigit ip" "noDigitAhead r1" "ip = [] \<longleftrightarrow> noDigitAhead r"
    by blast
  show ?thesis
  proof (cases "case r1 of [] \<Rightarrow> False | c # _ \<Rightarrow> c = CHR ''.''")
    case True
    then obtain t1 where r1: "r1 = ''.'' @ t1" by (cases r1) auto
    from digits_split [of t1] obtain fp r2 where
      fp: "t1 = fp @ r2" "list_all isDigit fp" "noDigitAhead r2" "fp = [] \<longleftrightarrow> noDigitAhead t1"
      by blast
    show ?thesis
    proof (cases "ip = [] \<and> fp = []")
      case True
      then have "r = CHR ''.'' # t1" "noDigitAhead t1"
        using ip(1) r1 fp(4) by simp_all
      then show ?thesis by (simp add: noDigitAhead_def isDigit_def)
    next
      case False
      with literal_found [OF assms ip(2) fp(2) _ _ fp(3), of True]
      obtain l t where "wellFormedLiteral l \<and> l_sign l = sg \<and> endsLiteral l t
           \<and> sg @ ip @ ''.'' @ fp @ r2 = literalText l @ t"
        by auto
      then show ?thesis using ip(1) r1 fp(1) by auto
    qed
  next
    case False
    then have nodot: "case r1 of [] \<Rightarrow> True | c # _ \<Rightarrow> c \<noteq> CHR ''.''"
      by (cases r1) auto
    show ?thesis
    proof (cases "ip = []")
      case True
      then have "r = r1" "noDigitAhead r" using ip(1,4) by simp_all
      then show ?thesis using nodot by (auto simp: noDigitAhead_def split: list.splits)
    next
      case False
      with literal_found [OF assms ip(2) _ _ _ ip(3), of "[]" False] nodot
      obtain l t where "wellFormedLiteral l \<and> l_sign l = sg \<and> endsLiteral l t
           \<and> sg @ ip @ r1 = literalText l @ t"
        by auto
      then show ?thesis using ip(1) by auto
    qed
  qed
qed

lemma string_shapes:
  "\<exists>w sg r. s = w @ sg @ r \<and> list_all isWhiteSpace w \<and> isSign sg
     \<and> ((\<exists>l t. wellFormedLiteral l \<and> l_sign l = sg \<and> endsLiteral l t
            \<and> sg @ r = literalText l @ t)
        \<or> (\<exists>t. r = ''Infinity'' @ t)
        \<or> startsNoNumber sg r)"
proof -
  define w where "w = takeWhile isWhiteSpace s"
  define x where "x = dropWhile isWhiteSpace s"
  have s: "s = w @ x" by (simp add: w_def x_def)
  have w: "list_all isWhiteSpace w"
    by (auto simp: w_def list_all_iff dest: set_takeWhileD)
  have x: "case x of [] \<Rightarrow> True | c # _ \<Rightarrow> \<not> isWhiteSpace c"
    unfolding x_def by (induction s) simp_all
  from sign_split [of x] obtain sg where
    sg: "isSign sg" "x = sg @ snd (stripSign x)"
      "sg = [] \<longrightarrow> (case x of [] \<Rightarrow> True | c # _ \<Rightarrow> c \<noteq> CHR ''+'' \<and> c \<noteq> CHR ''-'')"
    by blast
  define r where "r = snd (stripSign x)"
  have head: "sg = [] \<longrightarrow>
      (case r of [] \<Rightarrow> True | c # _ \<Rightarrow> \<not> isWhiteSpace c \<and> c \<noteq> CHR ''+'' \<and> c \<noteq> CHR ''-'')"
  proof
    assume e: "sg = []"
    then have "x = r" using sg(2) by (simp add: r_def)
    with x sg(3) e show
      "case r of [] \<Rightarrow> True | c # _ \<Rightarrow> \<not> isWhiteSpace c \<and> c \<noteq> CHR ''+'' \<and> c \<noteq> CHR ''-''"
      by (cases r) simp_all
  qed
  have "(\<exists>l t. wellFormedLiteral l \<and> l_sign l = sg \<and> endsLiteral l t
            \<and> sg @ r = literalText l @ t)
        \<or> (\<exists>t. r = ''Infinity'' @ t)
        \<or> startsNoNumber sg r"
  proof (cases "startsWith r ''Infinity''")
    case True
    define t where "t = drop (length ''Infinity'') r"
    have "take (length ''Infinity'') r = ''Infinity''"
      using True by (simp only: startsWith_def)
    moreover have "take (length ''Infinity'') r @ t = r"
      unfolding t_def by (rule append_take_drop_id)
    ultimately have "r = ''Infinity'' @ t" by (simp only:)
    then show ?thesis by blast
  next
    case False
    from unsigned_shapes [OF sg(1), of r] show ?thesis
    proof
      assume "\<exists>l t. wellFormedLiteral l \<and> l_sign l = sg \<and> endsLiteral l t
            \<and> sg @ r = literalText l @ t"
      then show ?thesis by blast
    next
      assume "case r of
               [] \<Rightarrow> True
             | c # cs \<Rightarrow> \<not> isDigit c
                        \<and> (c \<noteq> CHR ''.'' \<or> (case cs of [] \<Rightarrow> True | d # _ \<Rightarrow> \<not> isDigit d))"
      with False head have "startsNoNumber sg r"
        by (cases r) (auto simp: startsNoNumber_def)
      then show ?thesis by blast
    qed
  qed
  moreover have "s = w @ sg @ r" using s sg(2) by (simp add: r_def)
  ultimately show ?thesis using w sg(1) by blast
qed

text \<open>
  Claim C2, as amended. The amount of \<open>extractMoney\<close> is \<open>n\<close> for the finite number
  \<open>n\<close>. For a string made of white space, a decimal literal and a text that does not
  continue the literal, it is the double nearest to the number the literal writes
  (ties to even), and null when that double is infinite; for an integer literal below
  \<open>2^53\<close> that double is the integer itself. It is null for a string made of white
  space, an optional sign and \<^verbatim>\<open>Infinity\<close>, whatever follows, and for a string made of
  white space, an optional sign and a text that starts no number. Every string has
  one of these three forms. For a record it is \<open>toNumber\<close> of the first of \<^verbatim>\<open>Amount\<close>, \<^verbatim>\<open>TotalAmount\<close>, \<^verbatim>\<open>Value\<close>, \<^verbatim>\<open>Price\<close>, \<^verbatim>\<open>Net\<close>,
  \<^verbatim>\<open>NetAmount\<close> whose value is neither null nor undefined, and null when there is no
  such key; \<open>toNumber\<close> of a number or a string is the amount of \<open>extractMoney\<close> of it,
  and null of any other value. The amount is null for every other value.
\<close>

theorem extractMoney_amount:
  "amount (extractMoney (JNumber (Finite n))) = Some n
   \<and> (list_all isWhiteSpace w \<and> wellFormedLiteral l \<and> endsLiteral l r \<longrightarrow>
        amount (extractMoney (JString (w @ literalText l @ r))) = finiteValue (literalNumber l))
   \<and> (wellFormedLiteral l \<and> l_frac l = [] \<and> l_exp l = None \<and> decimalValue (l_int l) < 2 ^ 53 \<longrightarrow>
        literalNumber l
          = Finite ((if l_sign l = ''-'' then - 1 else 1) * of_nat (decimalValue (l_int l))))
   \<and> (list_all isWhiteSpace w \<and> isSign sg \<longrightarrow>
        amount (extractMoney (JString (w @ sg @ ''Infinity'' @ r))) = None)
   \<and> (list_all isWhiteSpace w \<and> isSign sg \<and> startsNoNumber sg r \<longrightarrow>
        amount (extractMoney (JString (w @ sg @ r))) = None)
   \<and> (moneyKeys = before @ key # after
        \<and> list_all (\<lambda>k. nullish (getField (JObject kvs) k)) before
        \<and> \<not> nullish (getField (JObject kvs) key) \<longrightarrow>
        amount (extractMoney (JObject kvs)) = toNumber (getField (JObject kvs) key))
   \<and> (typeOf v \<in> {KNumber, KString} \<longrightarrow> toNumber v = amount (extractMoney v))
   \<and> (typeOf v \<notin> {KNumber, KString} \<longrightarrow> toNumber v = None)
   \<and> (list_all (\<lambda>k. nullish (getField (JObject kvs) k)) moneyKeys \<longrightarrow>
        amount (extractMoney (JObject kvs)) = None)
   \<and> (typeOf v \<notin> {KNumber, KString, KRecord} \<longrightarrow> amount (extractMoney v) = None)
   \<and> (\<exists>w' sg' r'. s = w' @ sg' @ r' \<and> list_all isWhiteSpace w' \<and> isSign sg'
        \<and> ((\<exists>l' t. wellFormedLiteral l' \<and> l_sign l' = sg' \<and> endsLiteral l' t
               \<and> sg' @ r' = literalText l' @ t
               \<and> amount (extractMoney (JString s)) = finiteValue (literalNumber l'))
           \<or> ((\<exists>t. r' = ''Infinity'' @ t) \<and> amount (extractMoney (JString s)) = None)
           \<or> (startsNoNumber sg' r' \<and> amount (extractMoney (JString s)) = None)))"
proof (intro conjI impI)
  show "amount (extractMoney (JNumber (Finite n))) = Some n" by simp
next
  assume "list_all isWhiteSpace w \<and> wellFormedLiteral l \<and> endsLiteral l r"
  then have "parseFloat (w @ literalText l @ r) = literalNumber l"
    by (intro parseFloat_literal) simp_all
  then show "amount (extractMoney (JString (w @ literalText l @ r))) = finiteValue (literalNumber l)"
    by (simp only: extractMoney.simps money.simps toNumber_string)
next
  assume "wellFormedLiteral l \<and> l_frac l = [] \<and> l_exp l = None \<and> decimalValue (l_int l) < 2 ^ 53"
  then show "literalNumber l
          = Finite ((if l_sign l = ''-'' then - 1 else 1) * of_nat (decimalValue (l_int l)))"
    by (intro literalNumber_integer) simp_all
next
  assume "list_all isWhiteSpace w \<and> isSign sg"
  then have "parseFloat (w @ sg @ ''Infinity'' @ r) = (if sg = ''-'' then NegInf else PosInf)"
    by (intro parseFloat_infinity) simp_all
  then show "amount (extractMoney (JString (w @ sg @ ''Infinity'' @ r))) = None"
    by (simp only: extractMoney.simps money.simps toNumber_string) (simp add: finiteValue_def)
next
  assume "list_all isWhiteSpace w \<and> isSign sg \<and> startsNoNumber sg r"
  then have "parseFloat (w @ sg @ r) = NaN"
    by (intro parseFloat_no_number) simp_all
  then show "amount (extractMoney (JString (w @ sg @ r))) = None"
    by (simp only: extractMoney.simps money.simps toNumber_string) (simp add: finiteValue_def)
next
  assume "moneyKeys = before @ key # after
        \<and> list_all (\<lambda>k. nullish (getField (JObject kvs) k)) before
        \<and> \<not> nullish (getField (JObject kvs) key)"
  then have "coalesce (coalesce (coalesce (coalesce (coalesce
            (getField (JObject kvs) ''Amount'') (getField (JObject kvs) ''TotalAmount''))
            (getField (JObject kvs) ''Value'')) (getField (JObject kvs) ''Price''))
            (getField (JObject kvs) ''Net'')) (getField (JObject kvs) ''NetAmount'')
          = getField (JObject kvs) key"
    by (intro moneyKeys_first [of before key after]) simp_all
  then show "amount (extractMoney (JObject kvs)) = toNumber (getField (JObject kvs) key)"
    by (simp only: extractMoney.simps Let_def money.simps)
next
  assume "typeOf v \<in> {KNumber, KString}"
  then show "toNumber v = amount (extractMoney v)" by (cases v) simp_all
next
  assume "typeOf v \<notin> {KNumber, KString}"
  then show "toNumber v = None" by (cases v) simp_all
next
  assume a: "list_all (\<lambda>k. nullish (getField (JObject kvs) k)) moneyKeys"
  then have "nullish (getField (JObject kvs) ''NetAmount'')" by (simp add: moneyKeys_def)
  then have "toNumber (getField (JObject kvs) ''NetAmount'') = None" by (rule toNumber_nullish)
  then show "amount (extractMoney (JObject kvs)) = None"
    by (simp only: extractMoney.simps Let_def money.simps moneyKeys_none [OF a])
next
  assume "typeOf v \<notin> {KNumber, KString, KRecord}"
  then show "amount (extractMoney v) = None" by (cases v) simp_all
next
  from string_shapes [of s] obtain w' sg' r' where
    s: "s = w' @ sg' @ r'" and w: "list_all isWhiteSpace w'" and sg: "isSign sg'"
    and shape: "(\<exists>l' t. wellFormedLiteral l' \<and> l_sign l' = sg' \<and> endsLiteral l' t
            \<and> sg' @ r' = literalText l' @ t)
        \<or> (\<exists>t. r' = ''Infinity'' @ t)
        \<or> startsNoNumber sg' r'"
    by blast
  have "(\<exists>l' t. wellFormedLiteral l' \<and> l_sign l' = sg' \<and> endsLiteral l' t
               \<and> sg' @ r' = literalText l' @ t
               \<and> amount (extractMoney (JString s)) = finiteValue (literalNumber l'))
           \<or> ((\<exists>t. r' = ''Infinity'' @ t) \<and> amount (extractMoney (JString s)) = None)
           \<or> (startsNoNumber sg' r' \<and> amount (extractMoney (JString s)) = None)"
    using shape
  proof (elim disjE exE conjE)
    fix l' t
    assume l: "wellFormedLiteral l'" "l_sign l' = sg'" "endsLiteral l' t"
      and eq: "sg' @ r' = literalText l' @ t"
    have "parseFloat (w' @ literalText l' @ t) = literalNumber l'"
      using w l(1,3) by (rule parseFloat_literal)
    moreover have "s = w' @ literalText l' @ t" using s eq by simp
    ultimately have "amount (extractMoney (JString s)) = finiteValue (literalNumber l')"
      by (simp only: extractMoney.simps money.simps toNumber_string)
    with l eq show ?thesis by blast
  next
    fix t
    assume eq: "r' = ''Infinity'' @ t"
    have "parseFloat (w' @ sg' @ ''Infinity'' @ t) = (if sg' = ''-'' then NegInf else PosInf)"
      using w sg by (rule parseFloat_infinity)
    moreover have "s = w' @ sg' @ ''Infinity'' @ t" using s eq by simp
    ultimately have "amount (extractMoney (JString s)) = None"
      by (simp only: extractMoney.simps money.simps toNumber_string) (simp add: finiteValue_def)
    with eq show ?thesis by blast
  next
    assume no: "startsNoNumber sg' r'"
    have "parseFloat (w' @ sg' @ r') = NaN"
      using w sg no by (rule parseFloat_no_number)
    then have "amount (extractMoney (JString s)) = None"
      by (simp only: s extractMoney.simps money.simps toNumber_string) (simp add: finiteValue_def)
    with no show ?thesis by blast
  qed
  with s w sg show "\<exists>w' sg' r'. s = w' @ sg' @ r' \<and> list_all isWhiteSpace w' \<and> isSign sg'
        \<and> ((\<exists>l' t. wellFormedLiteral l' \<and> l_sign l' = sg' \<and> endsLiteral l' t
               \<and> sg' @ r' = literalText l' @ t
               \<and> amount (extractMoney (JString s)) = finiteValue (literalNumber l'))
           \<or> ((\<exists>t. r' = ''Infinity'' @ t) \<and> amount (extractMoney (JString s)) = None)
           \<or> (startsNoNumber sg' r' \<and> amount (extractMoney (JString s)) = None))"
    by blast
qed

text \<open>
  Claim C2 as stated fails: a record that carries 100 under \<^verbatim>\<open>TotalAmount\<close> behind an
  \<^verbatim>\<open>Amount\<close> that is not numeric has the amount null, and the string
  \<^verbatim>\<open>1,250.00\<close> has the amount 1.
\<close>

theorem extractMoney_amount_counterexample:
  "getField sampleMoney ''TotalAmount'' = JNumber (Finite 100)
   \<and> amount (extractMoney sampleMoney) = None
   \<and> amount (extractMoney (JString ''1,250.00'')) = Some 1"
proof -
  have a: "getField sampleMoney ''TotalAmount'' = JNumber (Finite 100)"
    by (simp add: sampleMoney_def)
  have "parseFloat ''N/A'' = NaN" by code_simp
  then have b: "amount (extractMoney sampleMoney) = None"
    by (simp add: sampleMoney_def coalesce_def)
  have "parseFloat ''1,250.00'' = Finite 1" by code_simp
  then have c: "amount (extractMoney (JString ''1,250.00'')) = Some 1" by simp
  from a b c show ?thesis by simp
qed

lemma sampleLiteral_number: "literalNumber sampleLiteral = Finite (25 / 2)"
proof -
  have "decimalValue ''1250'' = 1250"
    by (simp add: decimalValue_def digitValue_def)
  then have m: "literalMagnitude sampleLiteral = 25 / 2"
    by (simp add: literalMagnitude_def literalExponent_def sampleLiteral_def scale10_def)
  have "\<lfloor>(25 / 2 :: rat)\<rfloor> = 12"
    by (simp add: floor_eq_iff)
  moreover have "bitLength 12 = 4"
    by (simp add: bitLength.simps)
  ultimately have e: "binaryExponent (25 / 2) = 3"
    by (simp add: binaryExponent_def)
  have "roundHalfEven 7036874417766400 = 7036874417766400"
    by (simp add: roundHalfEven_def Let_def)
  then have "roundDouble (25 / 2) = 25 / 2"
    by (simp add: roundDouble_def e pow2_def)
  then have "toDouble False (25 / 2) = Finite (25 / 2)"
    by (simp add: toDouble_def infinityBound_def)
  moreover have "l_sign sampleLiteral \<noteq> ''-''"
    by (simp add: sampleLiteral_def)
  ultimately show ?thesis
    by (simp add: literalNumber_def m)
qed

lemma sampleExponentLiteral_number: "literalNumber sampleExponentLiteral = Finite (- 1000)"
proof -
  have "decimalValue ''1'' = 1" "decimalValue ''3'' = 3"
    by (simp_all add: decimalValue_def digitValue_def)
  then have m: "literalMagnitude sampleExponentLiteral = of_nat 1000"
    by (simp add: literalMagnitude_def literalExponent_def sampleExponentLiteral_def scale10_def)
  have "roundDouble (of_nat 1000) = of_nat 1000"
    by (rule roundDouble_nat) simp
  then have "toDouble True (of_nat 1000) = Finite (- 1000)"
    by (simp add: toDouble_def infinityBound_def)
  moreover have "l_sign sampleExponentLiteral = ''-''"
    by (simp add: sampleExponentLiteral_def)
  ultimately show ?thesis
    by (simp add: literalNumber_def m)
qed

lemma sampleLongLiteral_number: "literalNumber sampleLongLiteral = Finite 9007199254740992"
proof -
  have "decimalValue ''9007199254740993'' = 9007199254740993"
    by (simp add: decimalValue_def digitValue_def)
  then have m: "literalMagnitude sampleLongLiteral = 9007199254740993"
    by (simp add: literalMagnitude_def literalExponent_def sampleLongLiteral_def scale10_def)
  have "bitLength 9007199254740993 = 54"
    by (simp add: bitLength.simps)
  then have e: "binaryExponent 9007199254740993 = 53"
    by (simp add: binaryExponent_def)
  have "\<lfloor>(9007199254740993 / 2 :: rat)\<rfloor> = 4503599627370496"
    by (simp add: floor_eq_iff)
  then have "roundHalfEven (9007199254740993 / 2) = 4503599627370496"
    by (simp add: roundHalfEven_def Let_def)
  then have "roundDouble 9007199254740993 = 9007199254740992"
    by (simp add: roundDouble_def e pow2_def)
  then have "toDouble False 9007199254740993 = Finite 9007199254740992"
    by (simp add: toDouble_def infinityBound_def)
  moreover have "l_sign sampleLongLiteral \<noteq> ''-''"
    by (simp add: sampleLongLiteral_def)
  ultimately show ?thesis
    by (simp add: literalNumber_def m)
qed

theorem extractMoney_amount_witness:
  "amount (extractMoney (JNumber (Finite 100))) = Some 100
   \<and> amount (extractMoney (JString '' 12.50EUR'')) = Some (25 / 2)
   \<and> amount (extractMoney (JString ''-1e3'')) = Some (- 1000)
   \<and> amount (extractMoney (JString ''9007199254740993'')) = Some 9007199254740992
   \<and> amount (extractMoney (JString ''100EUR'')) = Some 100
   \<and> literalNumber sampleIntegerLiteral = Finite 100
   \<and> amount (extractMoney (JString ''-Infinity'')) = None
   \<and> amount (extractMoney (JString ''N/A'')) = None
   \<and> amount (extractMoney (JObject [(''Amount'', JNull), (''Price'', JString ''12.50'')]))
       = toNumber (JString ''12.50'')
   \<and> toNumber (JString ''12.50'') = amount (extractMoney (JString ''12.50''))
   \<and> toNumber (JBool True) = None
   \<and> amount (extractMoney (JObject [(''Currency'', JString ''EUR'')])) = None
   \<and> amount (extractMoney (JArray [JNumber (Finite 5)])) = None"
proof -
  note c1 = extractMoney_amount [THEN conjunct1]
  note c2 = extractMoney_amount [THEN conjunct2, THEN conjunct1, THEN mp]
  note c3 = extractMoney_amount [THEN conjunct2, THEN conjunct2, THEN conjunct1, THEN mp]
  note c4 = extractMoney_amount [THEN conjunct2, THEN conjunct2, THEN conjunct2, THEN conjunct1,
      THEN mp]
  note c5 = extractMoney_amount [THEN conjunct2, THEN conjunct2, THEN conjunct2, THEN conjunct2,
      THEN conjunct1, THEN mp]
  note c6 = extractMoney_amount [THEN conjunct2, THEN conjunct2, THEN conjunct2, THEN conjunct2,
      THEN conjunct2, THEN conjunct1, THEN mp]
  note c7 = extractMoney_amount [THEN conjunct2, THEN conjunct2, THEN conjunct2, THEN conjunct2,
      THEN conjunct2, THEN conjunct2, THEN conjunct1, THEN mp]
  note c8 = extractMoney_amount [THEN conjunct2, THEN conjunct2, THEN conjunct2, THEN conjunct2,
      THEN conjunct2, THEN conjunct2, THEN conjunct2, THEN conjunct1, THEN mp]
  note c9 = extractMoney_amount [THEN conjunct2, THEN conjunct2, THEN conjunct2, THEN conjunct2,
      THEN conjunct2, THEN conjunct2, THEN conjunct2, THEN conjunct2, THEN conjunct1, THEN mp]
  note c10 = extractMoney_amount [THEN conjunct2, THEN conjunct2, THEN conjunct2, THEN conjunct2,
      THEN conjunct2, THEN conjunct2, THEN conjunct2, THEN conjunct2, THEN conjunct2,
      THEN conjunct1, THEN mp]
  note eval_literal = wellFormedLiteral_def endsLiteral_def exponentStart_def isSign_def
    isDigit_def isWhiteSpace_def literalText_def exponentText_def
  have a1: "amount (extractMoney (JNumber (Finite 100))) = Some 100"
    by (rule c1)
  have "list_all isWhiteSpace '' '' \<and> wellFormedLiteral sampleLiteral
      \<and> endsLiteral sampleLiteral ''EUR''"
    by (simp add: sampleLiteral_def eval_literal)
  moreover have "'' '' @ literalText sampleLiteral @ ''EUR'' = '' 12.50EUR''"
    by (simp add: sampleLiteral_def eval_literal)
  moreover note sampleLiteral_number
  ultimately have a2: "amount (extractMoney (JString '' 12.50EUR'')) = Some (25 / 2)"
    using c2 [of "'' ''" sampleLiteral "''EUR''"] by (simp add: finiteValue_def)
  have "list_all isWhiteSpace [] \<and> wellFormedLiteral sampleExponentLiteral
      \<and> endsLiteral sampleExponentLiteral []"
    by (simp add: sampleExponentLiteral_def eval_literal)
  moreover have "[] @ literalText sampleExponentLiteral @ [] = ''-1e3''"
    by (simp add: sampleExponentLiteral_def eval_literal)
  moreover note sampleExponentLiteral_number
  ultimately have a3: "amount (extractMoney (JString ''-1e3'')) = Some (- 1000)"
    using c2 [of "[]" sampleExponentLiteral "[]"] by (simp add: finiteValue_def)
  have "list_all isWhiteSpace [] \<and> wellFormedLiteral sampleLongLiteral
      \<and> endsLiteral sampleLongLiteral []"
    by (simp add: sampleLongLiteral_def eval_literal)
  moreover have "[] @ literalText sampleLongLiteral @ [] = ''9007199254740993''"
    by (simp add: sampleLongLiteral_def eval_literal)
  moreover note sampleLongLiteral_number
  ultimately have a4: "amount (extractMoney (JString ''9007199254740993'')) = Some 9007199254740992"
    using c2 [of "[]" sampleLongLiteral "[]"] by (simp add: finiteValue_def)
  have w5: "wellFormedLiteral sampleIntegerLiteral"
    by (simp add: sampleIntegerLiteral_def eval_literal)
  have d5: "decimalValue (l_int sampleIntegerLiteral) = 100"
    by (simp add: sampleIntegerLiteral_def decimalValue_def digitValue_def)
  have "wellFormedLiteral sampleIntegerLiteral \<and> l_frac sampleIntegerLiteral = []
      \<and> l_exp sampleIntegerLiteral = None \<and> decimalValue (l_int sampleIntegerLiteral) < 2 ^ 53"
    using w5 by (simp add: d5) (simp add: sampleIntegerLiteral_def)
  then have "literalNumber sampleIntegerLiteral
      = Finite ((if l_sign sampleIntegerLiteral = ''-'' then - 1 else 1)
          * of_nat (decimalValue (l_int sampleIntegerLiteral)))"
    by (rule c3)
  then have a6: "literalNumber sampleIntegerLiteral = Finite 100"
    by (simp add: d5) (simp add: sampleIntegerLiteral_def)
  have "list_all isWhiteSpace [] \<and> wellFormedLiteral sampleIntegerLiteral
      \<and> endsLiteral sampleIntegerLiteral ''EUR''"
    using w5 by (simp add: sampleIntegerLiteral_def eval_literal)
  moreover have "[] @ literalText sampleIntegerLiteral @ ''EUR'' = ''100EUR''"
    by (simp add: sampleIntegerLiteral_def eval_literal)
  ultimately have a5: "amount (extractMoney (JString ''100EUR'')) = Some 100"
    using c2 [of "[]" sampleIntegerLiteral "''EUR''"] a6 by (simp add: finiteValue_def)
  have "list_all isWhiteSpace [] \<and> isSign ''-''" by (simp add: isSign_def)
  then have "amount (extractMoney (JString ([] @ ''-'' @ ''Infinity'' @ []))) = None"
    by (rule c4)
  then have a7: "amount (extractMoney (JString ''-Infinity'')) = None" by simp
  have "list_all isWhiteSpace [] \<and> isSign [] \<and> startsNoNumber [] ''N/A''"
    by (simp add: isSign_def startsNoNumber_def startsWith_def isDigit_def isWhiteSpace_def)
  then have "amount (extractMoney (JString ([] @ [] @ ''N/A''))) = None"
    by (rule c5)
  then have a8: "amount (extractMoney (JString ''N/A'')) = None" by simp
  have "moneyKeys = [''Amount'', ''TotalAmount'', ''Value''] @ ''Price'' # [''Net'', ''NetAmount'']
        \<and> list_all (\<lambda>k. nullish (getField (JObject [(''Amount'', JNull), (''Price'', JString ''12.50'')]) k))
             [''Amount'', ''TotalAmount'', ''Value'']
        \<and> \<not> nullish (getField (JObject [(''Amount'', JNull), (''Price'', JString ''12.50'')]) ''Price'')"
    by (simp add: moneyKeys_def)
  then have "amount (extractMoney (JObject [(''Amount'', JNull), (''Price'', JString ''12.50'')]))
      = toNumber (getField (JObject [(''Amount'', JNull), (''Price'', JString ''12.50'')]) ''Price'')"
    by (rule c6)
  then have a9: "amount (extractMoney (JObject [(''Amount'', JNull), (''Price'', JString ''12.50'')]))
      = toNumber (JString ''12.50'')"
    by (simp only: getField.simps map_of.simps fst_conv snd_conv) simp
  have "typeOf (JString ''12.50'') \<in> {KNumber, KString}" by simp
  then have a10: "toNumber (JString ''12.50'') = amount (extractMoney (JString ''12.50''))"
    by (rule c7)
  have "typeOf (JBool True) \<notin> {KNumber, KString}" by simp
  then have a11: "toNumber (JBool True) = None"
    by (rule c8)
  have "list_all (\<lambda>k. nullish (getField (JObject [(''Currency'', JString ''EUR'')]) k)) moneyKeys"
    by (simp add: moneyKeys_def)
  then have a12: "amount (extractMoney (JObject [(''Currency'', JString ''EUR'')])) = None"
    by (rule c9)
  have "typeOf (JArray [JNumber (Finite 5)]) \<notin> {KNumber, KString, KRecord}" by simp
  then have a13: "amount (extractMoney (JArray [JNumber (Finite 5)])) = None"
    by (rule c10)
  from a1 a2 a3 a4 a5 a6 a7 a8 a9 a10 a11 a12 a13 show ?thesis
    by (intro conjI)
qed

section \<open>The id of a room option\<close>

lemma roomIdKeys_first:
  assumes "roomIdKeys = before @ key # after"
    and "list_all (\<lambda>k. nullish (getField room k)) before" and "\<not> nullish (getField room key)"
  shows "roomIdSource room = getField room key"
  using assms by (auto simp: roomIdKeys_def roomIdSource_def Cons_eq_append_conv coalesce_def)

lemma roomIdKeys_none:
  assumes "list_all (\<lambda>k. nullish (getField room k)) roomIdKeys"
  shows "toStringValue (roomIdSource room) = None"
proof -
  from assms have "roomIdSource room = getField room ''Id''" "nullish (getField room ''Id'')"
    by (simp_all add: roomIdKeys_def roomIdSource_def coalesce_def)
  then show ?thesis by (cases "getField room ''Id''") simp_all
qed

lemma ro_id_normalizeRoom:
  "ro_id (normalizeRoom room index) =
     (case toStringValue (roomIdSource room) of
        Some s \<Rightarrow> s
      | None \<Rightarrow> ''room-'' @ natDigits (index + 1))"
  by (simp add: normalizeRoom_def Let_def)

lemma ro_id_nonempty: "ro_id (normalizeRoom room index) \<noteq> []"
  by (auto simp: ro_id_normalizeRoom split: option.splits dest: toStringValue_nonempty)

lemma normalizeRoomOptions_nth:
  assumes "\<not> nullish response"
  shows "\<exists>options. normalizeRoomOptions response = Inr options
           \<and> length options = length (resolvedRoomItems response)
           \<and> (\<forall>i < length options. options ! i = normalizeRoom (resolvedRoomItems response ! i) i)"
  using assms by (simp add: normalizeRoomOptions_def nth_enumerate_eq)

text \<open>
  Claim C10, as amended. For a response that is not null, \<open>normalizeRoomOptions\<close>
  returns one option per resolved room, and the id of every option is a string that
  is not empty: with the first of \<^verbatim>\<open>RoomCode\<close>, \<^verbatim>\<open>RateKey\<close>, \<^verbatim>\<open>RoomIndex\<close>, \<^verbatim>\<open>Id\<close> whose
  value is neither null nor undefined, the id is \<open>toStringValue\<close> of that value when it
  is usable and \<^verbatim>\<open>room-k\<close> (\<open>k\<close> the 1-based position) when it is not; it is \<^verbatim>\<open>room-k\<close>
  when all four are null or undefined.
\<close>

theorem room_option_id:
  assumes "\<not> nullish response"
  shows "\<exists>options. normalizeRoomOptions response = Inr options
     \<and> length options = length (resolvedRoomItems response)
     \<and> (\<forall>i < length options.
          ro_id (options ! i) \<noteq> []
        \<and> (roomIdKeys = before @ key # after
            \<and> list_all (\<lambda>k. nullish (getField (resolvedRoomItems response ! i) k)) before
            \<and> \<not> nullish (getField (resolvedRoomItems response ! i) key) \<longrightarrow>
            ro_id (options ! i) =
              (case toStringValue (getField (resolvedRoomItems response ! i) key) of
                 Some s \<Rightarrow> s
               | None \<Rightarrow> ''room-'' @ natDigits (i + 1)))
        \<and> (list_all (\<lambda>k. nullish (getField (resolvedRoomItems response ! i) k)) roomIdKeys \<longrightarrow>
            ro_id (options ! i) = ''room-'' @ natDigits (i + 1)))"
proof -
  from normalizeRoomOptions_nth [OF assms] obtain options where
    o: "normalizeRoomOptions response = Inr options"
    and l: "length options = length (resolvedRoomItems response)"
    and n: "\<forall>i < length options. options ! i = normalizeRoom (resolvedRoomItems response ! i) i"
    by blast
  have "ro_id (options ! i) \<noteq> []
        \<and> (roomIdKeys = before @ key # after
            \<and> list_all (\<lambda>k. nullish (getField (resolvedRoomItems response ! i) k)) before
            \<and> \<not> nullish (getField (resolvedRoomItems response ! i) key) \<longrightarrow>
            ro_id (options ! i) =
              (case toStringValue (getField (resolvedRoomItems response ! i) key) of
                 Some s \<Rightarrow> s
               | None \<Rightarrow> ''room-'' @ natDigits (i + 1)))
        \<and> (list_all (\<lambda>k. nullish (getField (resolvedRoomItems response ! i) k)) roomIdKeys \<longrightarrow>
            ro_id (options ! i) = ''room-'' @ natDigits (i + 1))"
    if i: "i < length options" for i
  proof -
    let ?room = "resolvedRoomItems response ! i"
    from n i have e: "options ! i = normalizeRoom ?room i" by simp
    show ?thesis
      unfolding e
    proof (intro conjI impI)
      show "ro_id (normalizeRoom ?room i) \<noteq> []" by (rule ro_id_nonempty)
    next
      assume "roomIdKeys = before @ key # after
            \<and> list_all (\<lambda>k. nullish (getField ?room k)) before
            \<and> \<not> nullish (getField ?room key)"
      then have "roomIdSource ?room = getField ?room key"
        by (intro roomIdKeys_first [of before key after]) simp_all
      then show "ro_id (normalizeRoom ?room i) =
              (case toStringValue (getField ?room key) of
                 Some s \<Rightarrow> s
               | None \<Rightarrow> ''room-'' @ natDigits (i + 1))"
        by (simp only: ro_id_normalizeRoom)
    next
      assume "list_all (\<lambda>k. nullish (getField ?room k)) roomIdKeys"
      then have "toStringValue (roomIdSource ?room) = None" by (rule roomIdKeys_none)
      then show "ro_id (normalizeRoom ?room i) = ''room-'' @ natDigits (i + 1)"
        by (simp add: ro_id_normalizeRoom)
    qed
  qed
  with o l show ?thesis by blast
qed

lemma sampleRooms_items:
  "resolvedRoomItems sampleRooms =
     [JObject [(''RoomCode'', JString ''''), (''RateKey'', JString ''RK-7'')],
      JObject [(''RoomCode'', JNull), (''RoomIndex'', JNumber (Finite 7))],
      JObject [(''RoomName'', JString ''Deluxe'')]]"
  by (simp add: sampleRooms_def resolvedRoomItems_def roomItems_def roomSources_def optField_def
      normalizeArray_def)

lemma sampleRooms_options:
  "normalizeRoomOptions sampleRooms =
     Inr [normalizeRoom (JObject [(''RoomCode'', JString ''''), (''RateKey'', JString ''RK-7'')]) 0,
          normalizeRoom (JObject [(''RoomCode'', JNull), (''RoomIndex'', JNumber (Finite 7))]) 1,
          normalizeRoom (JObject [(''RoomName'', JString ''Deluxe'')]) 2]"
proof -
  have "nullish sampleRooms = False" by (simp add: sampleRooms_def)
  then show ?thesis
    by (simp add: normalizeRoomOptions_def sampleRooms_items numeral_2_eq_2)
qed

lemma sampleRooms_ids:
  "ro_id (normalizeRoom (JObject [(''RoomCode'', JString ''''), (''RateKey'', JString ''RK-7'')]) 0) = ''room-1''"
  "ro_id (normalizeRoom (JObject [(''RoomCode'', JNull), (''RoomIndex'', JNumber (Finite 7))]) 1) = ''7''"
  "ro_id (normalizeRoom (JObject [(''RoomName'', JString ''Deluxe'')]) 2) = ''room-3''"
proof -
  have n7: "numberToString 7 = ''7''" by code_simp
  have d1: "natDigits (Suc 0) = ''1''" and d3: "natDigits 3 = ''3''"
    by (simp_all add: natDigits.simps)
  show "ro_id (normalizeRoom (JObject [(''RoomCode'', JString ''''), (''RateKey'', JString ''RK-7'')]) 0) = ''room-1''"
    by (simp add: ro_id_normalizeRoom roomIdSource_def coalesce_def eval_string d1)
  show "ro_id (normalizeRoom (JObject [(''RoomCode'', JNull), (''RoomIndex'', JNumber (Finite 7))]) 1) = ''7''"
    by (simp add: ro_id_normalizeRoom roomIdSource_def coalesce_def n7)
  show "ro_id (normalizeRoom (JObject [(''RoomName'', JString ''Deluxe'')]) 2) = ''room-3''"
    by (simp add: ro_id_normalizeRoom roomIdSource_def coalesce_def d3)
qed

text \<open>
  Claim C10 as stated fails on the first usable field: a room with an empty
  \<^verbatim>\<open>RoomCode\<close> and the usable \<^verbatim>\<open>RateKey\<close> \<^verbatim>\<open>RK-7\<close> gets the id \<^verbatim>\<open>room-1\<close>.
\<close>

theorem room_option_id_counterexample:
  "(case normalizeRoomOptions sampleRooms of Inl e \<Rightarrow> [] | Inr options \<Rightarrow> map ro_id options)
     = [''room-1'', ''7'', ''room-3'']
   \<and> toStringValue (getField (resolvedRoomItems sampleRooms ! 0) ''RateKey'') = Some ''RK-7''"
proof -
  have "(case normalizeRoomOptions sampleRooms of Inl e \<Rightarrow> [] | Inr options \<Rightarrow> map ro_id options)
     = map ro_id
        [normalizeRoom (JObject [(''RoomCode'', JString ''''), (''RateKey'', JString ''RK-7'')]) 0,
         normalizeRoom (JObject [(''RoomCode'', JNull), (''RoomIndex'', JNumber (Finite 7))]) 1,
         normalizeRoom (JObject [(''RoomName'', JString ''Deluxe'')]) 2]"
    by (simp only: sampleRooms_options sum.case)
  also have "\<dots> = [''room-1'', ''7'', ''room-3'']"
    by (simp only: list.map sampleRooms_ids)
  finally have A:
    "(case normalizeRoomOptions sampleRooms of Inl e \<Rightarrow> [] | Inr options \<Rightarrow> map ro_id options)
       = [''room-1'', ''7'', ''room-3'']" .
  have B: "toStringValue (getField (resolvedRoomItems sampleRooms ! 0) ''RateKey'') = Some ''RK-7''"
    by (simp add: sampleRooms_items eval_string)
  from A B show ?thesis by (rule conjI)
qed

theorem room_option_id_witness:
  "\<exists>options. normalizeRoomOptions sampleRooms = Inr options
     \<and> length options = 3
     \<and> ro_id (options ! 0) \<noteq> []
     \<and> ro_id (options ! 1) = ''7''
     \<and> ro_id (options ! 2) = ''room-3''"
proof -
  have r: "\<not> nullish sampleRooms" by (simp add: sampleRooms_def)
  have len: "length (resolvedRoomItems sampleRooms) = 3" by (simp add: sampleRooms_items)
  have k: "roomIdKeys = [''RoomCode'', ''RateKey''] @ ''RoomIndex'' # [''Id'']"
    by (simp add: roomIdKeys_def)
  have n7: "numberToString 7 = ''7''" by code_simp
  have b1: "list_all (\<lambda>k. nullish (getField (resolvedRoomItems sampleRooms ! 1) k)) [''RoomCode'', ''RateKey'']"
    by (simp add: sampleRooms_items)
  have p1: "\<not> nullish (getField (resolvedRoomItems sampleRooms ! 1) ''RoomIndex'')"
    by (simp add: sampleRooms_items)
  have v1: "toStringValue (getField (resolvedRoomItems sampleRooms ! 1) ''RoomIndex'') = Some ''7''"
    by (simp add: sampleRooms_items n7)
  have b2: "list_all (\<lambda>k. nullish (getField (resolvedRoomItems sampleRooms ! 2) k)) roomIdKeys"
    by (simp add: sampleRooms_items roomIdKeys_def)
  have d3: "natDigits (2 + 1) = ''3''" by (simp add: natDigits.simps)
  from room_option_id [OF r, of "[''RoomCode'', ''RateKey'']" "''RoomIndex''" "[''Id'']"]
  obtain options where all: "normalizeRoomOptions sampleRooms = Inr options
     \<and> length options = length (resolvedRoomItems sampleRooms)
     \<and> (\<forall>i < length options.
          ro_id (options ! i) \<noteq> []
        \<and> (roomIdKeys = [''RoomCode'', ''RateKey''] @ ''RoomIndex'' # [''Id'']
            \<and> list_all (\<lambda>k. nullish (getField (resolvedRoomItems sampleRooms ! i) k)) [''RoomCode'', ''RateKey'']
            \<and> \<not> nullish (getField (resolvedRoomItems sampleRooms ! i) ''RoomIndex'') \<longrightarrow>
            ro_id (options ! i) =
              (case toStringValue (getField (resolvedRoomItems sampleRooms ! i) ''RoomIndex'') of
                 Some s \<Rightarrow> s
               | None \<Rightarrow> ''room-'' @ natDigits (i + 1)))
        \<and> (list_all (\<lambda>k. nullish (getField (resolvedRoomItems sampleRooms ! i) k)) roomIdKeys \<longrightarrow>
            ro_id (options ! i) = ''room-'' @ natDigits (i + 1)))" ..
  note o = conjunct1 [OF all]
  note l = conjunct1 [OF conjunct2 [OF all]]
  note a = conjunct2 [OF conjunct2 [OF all]]
  from l len have l3: "length options = 3" by (simp only:)
  have lt0: "0 < length options" and lt1: "1 < length options" and lt2: "2 < length options"
    by (simp_all add: l3)
  note s0 = a [rule_format, OF lt0] and s1 = a [rule_format, OF lt1] and s2 = a [rule_format, OF lt2]
  have i0: "ro_id (options ! 0) \<noteq> []" by (rule conjunct1 [OF s0])
  have "ro_id (options ! 1) =
              (case toStringValue (getField (resolvedRoomItems sampleRooms ! 1) ''RoomIndex'') of
                 Some s \<Rightarrow> s
               | None \<Rightarrow> ''room-'' @ natDigits (1 + 1))"
    by (rule mp [OF conjunct1 [OF conjunct2 [OF s1]]]) (intro conjI k b1 p1)
  then have i1: "ro_id (options ! 1) = ''7''" by (simp only: v1 option.case)
  have "ro_id (options ! 2) = ''room-'' @ natDigits (2 + 1)"
    by (rule mp [OF conjunct2 [OF conjunct2 [OF s2]]]) (rule b2)
  then have i2: "ro_id (options ! 2) = ''room-3''" by (simp only: d3 append.simps)
  show ?thesis
    by (rule exI [of _ options]) (intro conjI o l3 i0 i1 i2)
qed

section \<open>The fallback scan for rooms\<close>

lemma visit_set:
  "set (visit v) = {filter isRecord xs | xs. JArray xs \<in> set (nodes v) \<and> roomLike xs}"
proof (induction v rule: visit.induct)
  case (1 node)
  have "set (visit (JArray node)) =
          (if roomLike node then {filter isRecord node} else {}) \<union> (\<Union>x\<in>set node. set (visit x))"
    by (auto simp: roomLike_def Let_def list_ex_iff filter_empty_conv)
  also have "\<dots> = (if roomLike node then {filter isRecord node} else {})
                 \<union> (\<Union>x\<in>set node. {filter isRecord xs | xs. JArray xs \<in> set (nodes x) \<and> roomLike xs})"
    using 1 by simp
  also have "\<dots> = {filter isRecord xs | xs. JArray xs \<in> set (nodes (JArray node)) \<and> roomLike xs}"
    by auto
  finally show ?case .
next
  case (2 kvs)
  have "set (visit (JObject kvs)) = (\<Union>kv\<in>set kvs. set (visit (snd kv)))" by simp
  also have "\<dots> = (\<Union>kv\<in>set kvs. {filter isRecord xs | xs. JArray xs \<in> set (nodes (snd kv)) \<and> roomLike xs})"
    using 2 by simp
  also have "\<dots> = {filter isRecord xs | xs. JArray xs \<in> set (nodes (JObject kvs)) \<and> roomLike xs}"
    by auto
  finally show ?case .
qed simp_all

lemma insertBy_byLengthDesc:
  "sorted_wrt (\<lambda>a b. length b \<le> length a) ys
   \<Longrightarrow> sorted_wrt (\<lambda>a b. length b \<le> length a) (insertBy byLengthDesc x ys)"
  by (induction ys) (auto simp: byLengthDesc_def set_insertBy)

lemma arraySort_byLengthDesc:
  "sorted_wrt (\<lambda>a b. length b \<le> length a) (arraySort byLengthDesc xs)"
proof (induction xs)
  case Nil
  then show ?case by (simp add: arraySort_def)
next
  case (Cons x xs)
  have "arraySort byLengthDesc (x # xs) = insertBy byLengthDesc x (arraySort byLengthDesc xs)"
    by (simp add: arraySort_def)
  with Cons show ?case by (simp add: insertBy_byLengthDesc)
qed

lemma findRoomCandidates_largest:
  assumes "visit v \<noteq> []"
  shows "findRoomCandidates v \<in> set (visit v)
         \<and> (\<forall>c\<in>set (visit v). length c \<le> length (findRoomCandidates v))"
proof -
  have s: "set (arraySort byLengthDesc (visit v)) = set (visit v)" by (rule set_arraySort)
  with assms obtain c rest where cr: "arraySort byLengthDesc (visit v) = c # rest"
    by (cases "arraySort byLengthDesc (visit v)") auto
  with assms have f: "findRoomCandidates v = c" by (simp add: findRoomCandidates_def)
  from arraySort_byLengthDesc [of "visit v"] cr
  have "\<forall>c'\<in>set rest. length c' \<le> length c" by simp
  then have all: "\<forall>c'\<in>set (c # rest). length c' \<le> length c" by simp
  have eq: "set (visit v) = set (c # rest)" by (simp only: s [symmetric] cr)
  have "c \<in> set (c # rest)" by simp
  with all show ?thesis by (simp only: eq f)
qed

text \<open>
  Claim C5. When none of the three known paths yields a record and the response holds
  somewhere an array with a record that has a room-like key, \<open>normalizeRoomOptions\<close>
  returns the options of the records of such an array, one whose number of records is
  the largest among these arrays.
\<close>

theorem fallback_finds_rooms:
  assumes none: "roomItems response = []"
    and arr: "JArray xs \<in> set (nodes response)"
    and like: "roomLike xs"
  shows "\<exists>ys. JArray ys \<in> set (nodes response) \<and> roomLike ys
           \<and> (\<forall>zs. JArray zs \<in> set (nodes response) \<and> roomLike zs
                  \<longrightarrow> length (filter isRecord zs) \<le> length (filter isRecord ys))
           \<and> filter isRecord ys \<noteq> []
           \<and> normalizeRoomOptions response =
               Inr (map (\<lambda>(index, room). normalizeRoom room index)
                      (enumerate 0 (filter isRecord ys)))"
proof -
  from arr like have mem: "filter isRecord xs \<in> set (visit response)"
    unfolding visit_set by blast
  then have ne: "visit response \<noteq> []" by auto
  from findRoomCandidates_largest [OF ne]
  have c: "findRoomCandidates response \<in> set (visit response)"
    and mx: "\<forall>c\<in>set (visit response). length c \<le> length (findRoomCandidates response)"
    by simp_all
  from c obtain ys where ys: "findRoomCandidates response = filter isRecord ys"
    "JArray ys \<in> set (nodes response)" "roomLike ys"
    unfolding visit_set by blast
  have big: "\<forall>zs. JArray zs \<in> set (nodes response) \<and> roomLike zs
                  \<longrightarrow> length (filter isRecord zs) \<le> length (filter isRecord ys)"
  proof (intro allI impI)
    fix zs assume "JArray zs \<in> set (nodes response) \<and> roomLike zs"
    then have "filter isRecord zs \<in> set (visit response)" unfolding visit_set by blast
    with mx ys(1) show "length (filter isRecord zs) \<le> length (filter isRecord ys)" by simp
  qed
  from ys(3) have nonempty: "filter isRecord ys \<noteq> []"
    by (auto simp: roomLike_def list_ex_iff filter_empty_conv)
  from arr have "\<not> nullish response" by (cases response) auto
  with none ys(1) have "normalizeRoomOptions response =
               Inr (map (\<lambda>(index, room). normalizeRoom room index)
                      (enumerate 0 (filter isRecord ys)))"
    by (simp add: normalizeRoomOptions_def resolvedRoomItems_def)
  with ys(2,3) big nonempty show ?thesis by blast
qed

lemma sampleNested_roomItems: "roomItems sampleNested = []"
  by (simp add: sampleNested_def roomItems_def roomSources_def optField_def normalizeArray_def)

lemma sampleNested_array:
  "JArray [JObject [(''RoomTypeName'', JString ''Deluxe''), (''Total'', JNumber (Finite 120))],
           JString ''separator'',
           JObject [(''Total'', JNumber (Finite 95))]] \<in> set (nodes sampleNested)"
  by (simp add: sampleNested_def)

lemma sampleNested_roomLike:
  "roomLike [JObject [(''RoomTypeName'', JString ''Deluxe''), (''Total'', JNumber (Finite 120))],
             JString ''separator'',
             JObject [(''Total'', JNumber (Finite 95))]]"
  by (simp add: roomLike_def hasRoomSignature_def roomKey_def toLowerCase_def toLowerChar_def)

theorem fallback_finds_rooms_witness:
  "\<exists>options. normalizeRoomOptions sampleNested = Inr options \<and> 2 \<le> length options"
proof -
  from fallback_finds_rooms [OF sampleNested_roomItems sampleNested_array sampleNested_roomLike]
  obtain ys where
    big: "\<forall>zs. JArray zs \<in> set (nodes sampleNested) \<and> roomLike zs
                  \<longrightarrow> length (filter isRecord zs) \<le> length (filter isRecord ys)"
    and res: "normalizeRoomOptions sampleNested =
               Inr (map (\<lambda>(index, room). normalizeRoom room index)
                      (enumerate 0 (filter isRecord ys)))"
    by blast
  from big sampleNested_array sampleNested_roomLike
  have "length (filter isRecord
           [JObject [(''RoomTypeName'', JString ''Deluxe''), (''Total'', JNumber (Finite 120))],
            JString ''separator'',
            JObject [(''Total'', JNumber (Finite 95))]]) \<le> length (filter isRecord ys)"
    by blast
  then have "2 \<le> length (filter isRecord ys)" by simp
  with res show ?thesis by simp
qed

end
